theory Spec2Isabelle
  imports Complex_Main
begin

section \<open>JavaScript numbers\<close>

text \<open>
  A JavaScript number is an IEEE double. The model keeps the three special values apart
  from the finite ones and computes the finite ones exactly (the two zeros are one value,
  and rounding is abstracted everywhere but in the accuracy percentage, where the rounding
  of the quotient and of the product decides the integer that is shown). Every divisor
  of the program is the result of \<open>Math.sqrt\<close> over a sum of squares or a positive
  constant, so a zero divisor is always \<open>+0\<close>; division by zero is written for that
  case.
\<close>

datatype jsnum = Fin real | PInf | NInf | NaN

fun is_fin :: "jsnum \<Rightarrow> bool" where
  "is_fin (Fin a) = True"
| "is_fin PInf = False"
| "is_fin NInf = False"
| "is_fin NaN = False"

fun js_neg :: "jsnum \<Rightarrow> jsnum" where
  "js_neg (Fin a) = Fin (- a)"
| "js_neg PInf = NInf"
| "js_neg NInf = PInf"
| "js_neg NaN = NaN"

fun js_add :: "jsnum \<Rightarrow> jsnum \<Rightarrow> jsnum" where
  "js_add (Fin a) (Fin b) = Fin (a + b)"
| "js_add (Fin a) PInf = PInf"
| "js_add (Fin a) NInf = NInf"
| "js_add PInf (Fin b) = PInf"
| "js_add PInf PInf = PInf"
| "js_add PInf NInf = NaN"
| "js_add NInf (Fin b) = NInf"
| "js_add NInf NInf = NInf"
| "js_add NInf PInf = NaN"
| "js_add NaN b = NaN"
| "js_add a NaN = NaN"

definition js_sub :: "jsnum \<Rightarrow> jsnum \<Rightarrow> jsnum" where
  "js_sub a b = js_add a (js_neg b)"

fun js_mul :: "jsnum \<Rightarrow> jsnum \<Rightarrow> jsnum" where
  "js_mul (Fin a) (Fin b) = Fin (a * b)"
| "js_mul (Fin a) PInf = (if a = 0 then NaN else if 0 < a then PInf else NInf)"
| "js_mul (Fin a) NInf = (if a = 0 then NaN else if 0 < a then NInf else PInf)"
| "js_mul PInf (Fin b) = (if b = 0 then NaN else if 0 < b then PInf else NInf)"
| "js_mul NInf (Fin b) = (if b = 0 then NaN else if 0 < b then NInf else PInf)"
| "js_mul PInf PInf = PInf"
| "js_mul PInf NInf = NInf"
| "js_mul NInf PInf = NInf"
| "js_mul NInf NInf = PInf"
| "js_mul NaN b = NaN"
| "js_mul a NaN = NaN"

fun js_div :: "jsnum \<Rightarrow> jsnum \<Rightarrow> jsnum" where
  "js_div (Fin a) (Fin b) =
     (if b = 0 then (if a = 0 then NaN else if 0 < a then PInf else NInf)
      else Fin (a / b))"
| "js_div (Fin a) PInf = Fin 0"
| "js_div (Fin a) NInf = Fin 0"
| "js_div PInf (Fin b) = (if 0 \<le> b then PInf else NInf)"
| "js_div NInf (Fin b) = (if 0 \<le> b then NInf else PInf)"
| "js_div PInf PInf = NaN"
| "js_div PInf NInf = NaN"
| "js_div NInf PInf = NaN"
| "js_div NInf NInf = NaN"
| "js_div NaN b = NaN"
| "js_div a NaN = NaN"

fun js_sqrt :: "jsnum \<Rightarrow> jsnum" where
  "js_sqrt (Fin a) = (if a < 0 then NaN else Fin (sqrt a))"
| "js_sqrt PInf = PInf"
| "js_sqrt NInf = NaN"
| "js_sqrt NaN = NaN"

text \<open>The comparison \<open>a < b\<close>; it is false as soon as one side is NaN.\<close>

fun js_lt :: "jsnum \<Rightarrow> jsnum \<Rightarrow> bool" where
  "js_lt (Fin a) (Fin b) = (a < b)"
| "js_lt (Fin a) PInf = True"
| "js_lt NInf (Fin b) = True"
| "js_lt NInf PInf = True"
| "js_lt a b = False"

definition js_gt :: "jsnum \<Rightarrow> jsnum \<Rightarrow> bool" where
  "js_gt a b = js_lt b a"

text \<open>\<open>v || 0\<close> on an optional number: undefined, \<open>0\<close> and NaN are falsy.\<close>

fun js_or_zero :: "jsnum option \<Rightarrow> jsnum" where
  "js_or_zero None = Fin 0"
| "js_or_zero (Some NaN) = Fin 0"
| "js_or_zero (Some v) = v"


section \<open>Hand tracker (hand-tracking.js)\<close>

datatype landmark = Landmark (px: jsnum) (py: jsnum) (pz: "jsnum option")

record gesture_state =
  isGunPose :: bool
  isThumbUp :: bool
  fingerTip :: "jsnum \<times> jsnum"
  confidence :: jsnum
  landmarks :: "landmark list option"

record handTracker =
  gestureState :: gesture_state
  smoothingFactor :: jsnum
  smoothedPosition :: "jsnum \<times> jsnum"

datatype callback =
  OnGestureUpdate gesture_state
| OnTrackingLost
| OnLandmarksUpdate "landmark list"

datatype error = TypeError

text \<open>The constructor's initial values.\<close>

definition newHandTracker :: handTracker where
  "newHandTracker =
     \<lparr> gestureState = \<lparr> isGunPose = False, isThumbUp = False,
                        fingerTip = (Fin 0.5, Fin 0.5), confidence = Fin 0,
                        landmarks = None \<rparr>,
       smoothingFactor = Fin 0.4,
       smoothedPosition = (Fin 0.5, Fin 0.5) \<rparr>"

text \<open>\<open>HandTracker.distance\<close>\<close>

definition distance :: "landmark \<Rightarrow> landmark \<Rightarrow> jsnum" where
  "distance p1 p2 =
     (let dx = js_sub (px p1) (px p2);
          dy = js_sub (py p1) (py p2);
          dz = js_sub (js_or_zero (pz p1)) (js_or_zero (pz p2))
      in js_sqrt (js_add (js_add (js_mul dx dx) (js_mul dy dy)) (js_mul dz dz)))"

text \<open>
  The locals of \<open>processResults\<close>, under their names in the source. The argument is the
  landmark array of the first hand; index \<open>0\<close> is the wrist, \<open>5..8\<close> the index finger
  (MCP, PIP, DIP, tip), \<open>10\<close>/\<open>12\<close>, \<open>14\<close>/\<open>16\<close>, \<open>18\<close>/\<open>20\<close> the PIP joint and the
  tip of the middle, ring and little finger, \<open>3\<close>/\<open>4\<close> the thumb's IP joint and tip.
\<close>

definition indexCurl :: "landmark list \<Rightarrow> jsnum" where
  "indexCurl lms = js_div (distance (lms ! 8) (lms ! 6)) (distance (lms ! 6) (lms ! 5))"

definition indexExtended :: "landmark list \<Rightarrow> bool" where
  "indexExtended lms \<longleftrightarrow>
     js_gt (indexCurl lms) (Fin 0.8) \<and> js_lt (py (lms ! 8)) (py (lms ! 6))"

definition middleCurl :: "landmark list \<Rightarrow> jsnum" where
  "middleCurl lms = js_div (distance (lms ! 12) (lms ! 0)) (distance (lms ! 10) (lms ! 0))"

definition middleFolded :: "landmark list \<Rightarrow> bool" where
  "middleFolded lms \<longleftrightarrow>
     js_lt (middleCurl lms) (Fin 1.3) \<or> js_gt (py (lms ! 12)) (py (lms ! 10))"

definition ringCurl :: "landmark list \<Rightarrow> jsnum" where
  "ringCurl lms = js_div (distance (lms ! 16) (lms ! 0)) (distance (lms ! 14) (lms ! 0))"

definition ringFolded :: "landmark list \<Rightarrow> bool" where
  "ringFolded lms \<longleftrightarrow>
     js_lt (ringCurl lms) (Fin 1.3) \<or> js_gt (py (lms ! 16)) (py (lms ! 14))"

definition pinkyCurl :: "landmark list \<Rightarrow> jsnum" where
  "pinkyCurl lms = js_div (distance (lms ! 20) (lms ! 0)) (distance (lms ! 18) (lms ! 0))"

definition pinkyFolded :: "landmark list \<Rightarrow> bool" where
  "pinkyFolded lms \<longleftrightarrow>
     js_lt (pinkyCurl lms) (Fin 1.3) \<or> js_gt (py (lms ! 20)) (py (lms ! 18))"

definition thumbUp :: "landmark list \<Rightarrow> bool" where
  "thumbUp lms \<longleftrightarrow> js_lt (py (lms ! 4)) (js_sub (py (lms ! 3)) (Fin 0.02))"

definition othersFolded :: "landmark list \<Rightarrow> nat" where
  "othersFolded lms =
     (if middleFolded lms then 1 else 0) + (if ringFolded lms then 1 else 0)
       + (if pinkyFolded lms then 1 else 0)"

definition gunPose :: "landmark list \<Rightarrow> bool" where
  "gunPose lms \<longleftrightarrow> indexExtended lms \<and> othersFolded lms \<ge> 2"

definition computeConfidence :: "landmark list \<Rightarrow> jsnum" where
  "computeConfidence lms =
     (let c0 = Fin 0;
          c1 = (if indexExtended lms then js_add c0 (Fin 0.4) else c0);
          c2 = (if middleFolded lms then js_add c1 (Fin 0.2) else c1);
          c3 = (if ringFolded lms then js_add c2 (Fin 0.2) else c2);
          c4 = (if pinkyFolded lms then js_add c3 (Fin 0.2) else c3)
      in c4)"

text \<open>The exponential filter on the mirrored index fingertip.\<close>

definition smooth :: "jsnum \<Rightarrow> landmark list \<Rightarrow> jsnum \<times> jsnum \<Rightarrow> jsnum \<times> jsnum" where
  "smooth factor lms sp =
     (let rawX = js_sub (Fin 1) (px (lms ! 8));
          rawY = py (lms ! 8)
      in (js_add (fst sp) (js_mul (js_sub rawX (fst sp)) factor),
          js_add (snd sp) (js_mul (js_sub rawY (snd sp)) factor)))"

text \<open>
  \<open>HandTracker.processResults\<close>. The argument is \<open>results.multiHandLandmarks\<close>
  (\<open>None\<close> when the property is absent). The result is the tracker after the call and the
  callbacks it made, in order. Drawing the skeleton and the debug panel are presentation
  and are left out. A hand with fewer than 21 landmarks makes the first read of a missing
  landmark's coordinate throw.
\<close>

definition processResults ::
  "handTracker \<Rightarrow> landmark list list option \<Rightarrow> error + (handTracker \<times> callback list)" where
  "processResults t multiHandLandmarks =
     (case multiHandLandmarks of
        None \<Rightarrow>
          Inr (t\<lparr>gestureState := (gestureState t)
                   \<lparr>isGunPose := False, confidence := Fin 0, landmarks := None\<rparr>\<rparr>,
               [OnTrackingLost])
      | Some [] \<Rightarrow>
          Inr (t\<lparr>gestureState := (gestureState t)
                   \<lparr>isGunPose := False, confidence := Fin 0, landmarks := None\<rparr>\<rparr>,
               [OnTrackingLost])
      | Some (lms # _) \<Rightarrow>
          if length lms < 21 then Inl TypeError
          else
            let sp = smooth (smoothingFactor t) lms (smoothedPosition t);
                gs = \<lparr> isGunPose = gunPose lms, isThumbUp = thumbUp lms,
                       fingerTip = sp, confidence = computeConfidence lms,
                       landmarks = Some lms \<rparr>
            in Inr (t\<lparr>smoothedPosition := sp, gestureState := gs\<rparr>,
                    [OnGestureUpdate gs, OnLandmarksUpdate lms]))"


section \<open>Game (effects.js)\<close>

text \<open>
  A disc is a mesh object; the model keeps its \<open>position\<close> (x and y; z is always 0) and
  its \<open>userData\<close>. The mesh's rotation, material and rendered scale belong to the renderer
  and are left out.
\<close>

record disc =
  position :: "real \<times> real"
  velocity :: "real \<times> real"
  rotationSpeed :: real
  floatPhase :: real
  floatAmplitude :: real
  floatFrequency :: real
  originX :: real
  originY :: real
  color :: "int option"
  points :: int
  createdAt :: int
  scale :: real

text \<open>A pending \<open>setTimeout\<close> callback, and a call to the audio manager.\<close>

datatype timer = InitialSpawn nat | ShootCooldown | Respawn

datatype audio_event = PlayShoot | PlayHit | PlayPerfectHit | PlayMiss | PlayCombo int | PlayLock

text \<open>
  What the program reads from outside: the \<open>n\<close>-th call of \<open>Math.random\<close> and of
  \<open>Date.now\<close>, the window's size, and the camera's projection of a point of the plane
  \<open>z = 0\<close> to the screen.
\<close>

record env =
  mathRandom :: "nat \<Rightarrow> real"
  dateNow :: "nat \<Rightarrow> int"
  innerWidth :: jsnum
  innerHeight :: jsnum
  worldToScreen :: "real \<times> real \<Rightarrow> jsnum \<times> jsnum"

text \<open>
  \<open>this.state\<close> and the other mutable fields of \<open>Game\<close>. Disc objects live in the
  store \<open>objs\<close> under the reference they were created with; \<open>discs\<close> is the array of
  references and \<open>lockedTarget\<close> a reference or null. \<open>timers\<close> are the pending
  \<open>setTimeout\<close> callbacks, \<open>audio\<close> the calls made to the audio manager so far,
  \<open>accuracyDisplay\<close> the number shown by the accuracy element (\<open>None\<close> while the element
  still has the page's own text), \<open>randomCalls\<close> and \<open>dateCalls\<close> the number of calls of
  \<open>Math.random\<close> and \<open>Date.now\<close> made so far.
\<close>

record game =
  score :: int
  combo :: int
  maxCombo :: int
  hits :: int
  shots :: int
  lastHitTime :: int
  comboTimeout :: int
  crosshairX :: jsnum
  crosshairY :: jsnum
  targetX :: jsnum
  targetY :: jsnum
  state_isGunPose :: bool
  wasThumbUp :: bool
  isShooting :: bool
  shootCooldown :: int
  lockedTarget :: "nat option"
  wasLocked :: bool
  running :: bool
  discs :: "nat list"
  objs :: "nat \<Rightarrow> disc"
  nextRef :: nat
  timers :: "timer list"
  audio :: "audio_event list"
  accuracyDisplay :: "int option"
  randomCalls :: nat
  dateCalls :: nat

subsection \<open>Configuration\<close>

definition maxCount :: nat where "maxCount = 4"

definition colors :: "int list" where
  "colors = [62975, 16711935, 65416, 16737792, 16755200]"

definition minX :: real where "minX = - 4"
definition maxX :: real where "maxX = 4"
definition minY :: real where "minY = - 2.5"
definition maxY :: real where "maxY = 2.5"
definition floatSpeed :: real where "floatSpeed = 0.008"
definition lifeTime :: int where "lifeTime = 8000"
definition magnet_range :: jsnum where "magnet_range = Fin 120"
definition magnet_strength :: jsnum where "magnet_strength = Fin 0.6"
definition smoothing :: jsnum where "smoothing = Fin 0.12"

text \<open>A placeholder for the references of the store that no disc has been created with.\<close>

definition noDisc :: disc where
  "noDisc = \<lparr> position = (0, 0), velocity = (0, 0), rotationSpeed = 0, floatPhase = 0,
              floatAmplitude = 0, floatFrequency = 0, originX = 0, originY = 0,
              color = None, points = 0, createdAt = 0, scale = 0 \<rparr>"

text \<open>The constructor.\<close>

definition newGame :: "env \<Rightarrow> game" where
  "newGame e =
     \<lparr> score = 0, combo = 1, maxCombo = 1, hits = 0, shots = 0, lastHitTime = 0,
       comboTimeout = 2000,
       crosshairX = js_div (innerWidth e) (Fin 2), crosshairY = js_div (innerHeight e) (Fin 2),
       targetX = js_div (innerWidth e) (Fin 2), targetY = js_div (innerHeight e) (Fin 2),
       state_isGunPose = False, wasThumbUp = True, isShooting = False, shootCooldown = 200,
       lockedTarget = None, wasLocked = False, running = False,
       discs = [], objs = (\<lambda>r. noDisc), nextRef = 0, timers = [], audio = [],
       accuracyDisplay = None, randomCalls = 0, dateCalls = 0 \<rparr>"

subsection \<open>Target registry\<close>

text \<open>\<open>isPositionOccupied\<close>, with its default \<open>minDistance = 1.5\<close> passed by the callers.\<close>

fun isPositionOccupied :: "(nat \<Rightarrow> disc) \<Rightarrow> nat list \<Rightarrow> real \<Rightarrow> real \<Rightarrow> real \<Rightarrow> bool" where
  "isPositionOccupied os [] x y minDistance = False"
| "isPositionOccupied os (d # ds) x y minDistance =
     (let dx = fst (position (os d)) - x;
          dy = snd (position (os d)) - y;
          dist = sqrt (dx * dx + dy * dy)
      in if dist < minDistance then True else isPositionOccupied os ds x y minDistance)"

text \<open>
  The \<open>do ... while\<close> loop of \<open>createDisc\<close> and \<open>repositionDisc\<close>: \<open>n\<close> is the number of
  the next call of \<open>Math.random\<close>; the result is the position and the number of the
  call after the loop.
\<close>

function pickPosition :: "env \<Rightarrow> game \<Rightarrow> nat \<Rightarrow> nat \<Rightarrow> real \<times> real \<times> nat" where
  "pickPosition e s n attempts =
     (let posX = minX + mathRandom e n * (maxX - minX);
          posY = minY + mathRandom e (n + 1) * (maxY - minY);
          attempts' = attempts + 1
      in if isPositionOccupied (objs s) (discs s) posX posY 1.5 \<and> attempts' < 20
         then pickPosition e s (n + 2) attempts'
         else (posX, posY, n + 2))"
  by pat_completeness auto
termination
  by (relation "measure (\<lambda>(e, s, n, attempts). 20 - attempts)") auto

declare pickPosition.simps [simp del]

definition createDisc :: "env \<Rightarrow> game \<Rightarrow> game" where
  "createDisc e s =
     (let n0 = randomCalls s;
          colorIndex = \<lfloor>mathRandom e n0 * real (length colors)\<rfloor>;
          c = (if 0 \<le> colorIndex \<and> colorIndex < int (length colors)
               then Some (colors ! nat colorIndex) else None);
          (posX, posY, n1) = pickPosition e s (n0 + 1) 0;
          angle = mathRandom e n1 * pi * 2;
          speed = floatSpeed;
          d = \<lparr> position = (posX, posY),
                velocity = (cos angle * speed, sin angle * speed),
                rotationSpeed = (mathRandom e (n1 + 1) - 0.5) * 0.08,
                floatPhase = mathRandom e (n1 + 2) * pi * 2,
                floatAmplitude = 0.3 + mathRandom e (n1 + 3) * 0.2,
                floatFrequency = 0.5 + mathRandom e (n1 + 4) * 0.5,
                originX = posX, originY = posY,
                color = c, points = 100,
                createdAt = dateNow e (dateCalls s),
                scale = 0.1 \<rparr>;
          r = nextRef s
      in s\<lparr> objs := (objs s)(r := d), nextRef := r + 1, discs := discs s @ [r],
             randomCalls := n1 + 5, dateCalls := dateCalls s + 1 \<rparr>)"

definition repositionDisc :: "env \<Rightarrow> game \<Rightarrow> nat \<Rightarrow> game" where
  "repositionDisc e s r =
     (let (posX, posY, n1) = pickPosition e s (randomCalls s) 0;
          angle = mathRandom e (n1 + 1) * pi * 2;
          d = (objs s r)
                \<lparr> originX := posX, originY := posY,
                  createdAt := dateNow e (dateCalls s),
                  floatPhase := mathRandom e n1 * pi * 2,
                  velocity := (cos angle * floatSpeed, sin angle * floatSpeed) \<rparr>
      in s\<lparr> objs := (objs s)(r := d), randomCalls := n1 + 2, dateCalls := dateCalls s + 1 \<rparr>)"

text \<open>\<open>removeDisc\<close>: \<open>splice\<close> at \<open>indexOf\<close> removes the first occurrence.\<close>

definition removeDisc :: "game \<Rightarrow> nat \<Rightarrow> game" where
  "removeDisc s r = (if r \<in> set (discs s) then s\<lparr>discs := remove1 r (discs s)\<rparr> else s)"

lemma discs_createDisc: "discs (createDisc e s) = discs s @ [nextRef s]"
  by (simp add: createDisc_def Let_def split: prod.splits)

text \<open>The loop of \<open>update\<close> that keeps the number of discs up.\<close>

function topUp :: "env \<Rightarrow> game \<Rightarrow> game" where
  "topUp e s = (if length (discs s) < maxCount then topUp e (createDisc e s) else s)"
  by pat_completeness auto
termination
  by (relation "measure (\<lambda>(e, s). maxCount - length (discs s))") (auto simp: discs_createDisc)

declare topUp.simps [simp del]

subsection \<open>Combo and score\<close>

text \<open>
  The double nearest to a real number, a tie going to the even significand: the result of
  a division or a product of doubles. The significand has 53 bits; \<open>binade x\<close> is the
  largest power of two that is at most \<open>\<bar>x\<bar>\<close>. Overflow and subnormal numbers are left
  out: the quotient of hits by shots and its product with 100 stay far from both.
\<close>

definition roundEven :: "real \<Rightarrow> int" where
  "roundEven y =
     (let f = \<lfloor>y\<rfloor>; r = y - real_of_int f
      in if r < 1 / 2 then f else if 1 / 2 < r then f + 1 else if even f then f else f + 1)"

definition binade :: "real \<Rightarrow> real" where
  "binade x = 2 powr real_of_int \<lfloor>log 2 \<bar>x\<bar>\<rfloor>"

definition toDouble :: "real \<Rightarrow> real" where
  "toDouble x =
     (if x = 0 then 0
      else let u = binade x / 2 ^ 52 in real_of_int (roundEven (x / u)) * u)"

text \<open>\<open>Math.round\<close> of a finite number: the nearest integer, a half rounded up.\<close>

definition mathRound :: "real \<Rightarrow> int" where
  "mathRound v = \<lfloor>v + 1 / 2\<rfloor>"

text \<open>
  The local \<open>accuracy\<close> of \<open>updateAccuracy\<close>, \<open>Math.round((hits / shots) * 100)\<close>:
  the counters are integers, the quotient and the product are doubles.
\<close>

definition accuracy :: "int \<Rightarrow> int \<Rightarrow> int" where
  "accuracy h n = mathRound (toDouble (toDouble (real_of_int h / real_of_int n) * 100))"

definition updateAccuracy :: "game \<Rightarrow> game" where
  "updateAccuracy s =
     (if shots s = 0 then s
      else s\<lparr>accuracyDisplay := Some (accuracy (hits s) (shots s))\<rparr>)"

definition miss :: "game \<Rightarrow> game" where
  "miss s = s\<lparr>combo := 1, audio := audio s @ [PlayMiss]\<rparr>"

text \<open>
  \<open>hitTarget\<close>. The floating texts and the particles are presentation; the respawn
  callback is left pending in \<open>timers\<close>.
\<close>

definition hitTarget :: "env \<Rightarrow> game \<Rightarrow> nat \<Rightarrow> game" where
  "hitTarget e s d =
     (let now = dateNow e (dateCalls s);
          timeSinceLastHit = now - lastHitTime s;
          c = (if timeSinceLastHit < comboTimeout s then min (combo s + 1) 10 else 1);
          m = (if c > maxCombo s then c else maxCombo s);
          basePoints = points (objs s d);
          comboBonus = c;
          totalPoints = basePoints * comboBonus;
          s1 = s\<lparr> hits := hits s + 1, dateCalls := dateCalls s + 1, combo := c,
                  lastHitTime := now, maxCombo := m, score := score s + totalPoints,
                  audio := audio s @ [if c \<ge> 5 then PlayPerfectHit else PlayHit]
                             @ (if c > 1 then [PlayCombo c] else []) \<rparr>;
          s2 = removeDisc s1 d
      in s2\<lparr> timers := timers s2 @ [Respawn], lockedTarget := None \<rparr>)"

definition shoot :: "env \<Rightarrow> game \<Rightarrow> game" where
  "shoot e s =
     (if isShooting s then s
      else
        let s1 = s\<lparr> isShooting := True, shots := shots s + 1, audio := audio s @ [PlayShoot] \<rparr>;
            s2 = (case lockedTarget s1 of Some d \<Rightarrow> hitTarget e s1 d | None \<Rightarrow> miss s1);
            s3 = updateAccuracy s2
        in s3\<lparr> timers := timers s3 @ [ShootCooldown] \<rparr>)"

subsection \<open>Trigger edge detector\<close>

definition updateGesture :: "env \<Rightarrow> game \<Rightarrow> gesture_state \<Rightarrow> game" where
  "updateGesture e s g =
     (let s1 = s\<lparr> state_isGunPose := isGunPose g \<rparr>
      in if isGunPose g then
           let s2 = s1\<lparr> targetX := js_mul (fst (fingerTip g)) (innerWidth e),
                        targetY := js_mul (snd (fingerTip g)) (innerHeight e) \<rparr>;
               s3 = (if \<not> isThumbUp g \<and> wasThumbUp s2 \<and> \<not> isShooting s2
                     then shoot e s2 else s2)
           in s3\<lparr> wasThumbUp := isThumbUp g \<rparr>
         else s1\<lparr> wasThumbUp := True \<rparr>)"

definition onGestureLost :: "game \<Rightarrow> game" where
  "onGestureLost s = s\<lparr> state_isGunPose := False \<rparr>"

subsection \<open>Magnetic acquisition and the frame update\<close>

text \<open>
  The first loop of \<open>update\<close>; the accumulator is \<open>(nearestDist, nearestDisc)\<close>, which
  starts as \<open>(Infinity, null)\<close>.
\<close>

definition screenDist :: "env \<Rightarrow> game \<Rightarrow> nat \<Rightarrow> jsnum" where
  "screenDist e s d =
     (let screenPos = worldToScreen e (position (objs s d));
          dx = js_sub (fst screenPos) (targetX s);
          dy = js_sub (snd screenPos) (targetY s)
      in js_sqrt (js_add (js_mul dx dx) (js_mul dy dy)))"

fun findNearest :: "env \<Rightarrow> game \<Rightarrow> nat list \<Rightarrow> jsnum \<times> nat option \<Rightarrow> jsnum \<times> nat option" where
  "findNearest e s [] acc = acc"
| "findNearest e s (d # ds) (nearestDist, nearestDisc) =
     (let dist = screenDist e s d
      in if js_lt dist nearestDist \<and> js_lt dist magnet_range
         then findNearest e s ds (dist, Some d)
         else findNearest e s ds (nearestDist, nearestDisc))"

definition magnetStrength :: "jsnum \<Rightarrow> jsnum" where
  "magnetStrength nearestDist =
     js_mul (js_sub (Fin 1) (js_div nearestDist magnet_range)) magnet_strength"

text \<open>
  The magnet, the lock and the smoothing of the crosshair. The crosshair's style and the
  laser line are presentation.
\<close>

definition magneticAim :: "env \<Rightarrow> game \<Rightarrow> game" where
  "magneticAim e s =
     (let (nearestDist, nearestDisc) = findNearest e s (discs s) (PInf, None);
          (finalTargetX, finalTargetY, s1) =
            (if nearestDisc \<noteq> None \<and> state_isGunPose s then
               let screenPos = worldToScreen e (position (objs s (the nearestDisc)));
                   k = magnetStrength nearestDist;
                   fx = js_add (targetX s) (js_mul (js_sub (fst screenPos) (targetX s)) k);
                   fy = js_add (targetY s) (js_mul (js_sub (snd screenPos) (targetY s)) k);
                   sl = s\<lparr> lockedTarget := nearestDisc \<rparr>
               in (fx, fy,
                   if \<not> wasLocked sl then sl\<lparr> audio := audio sl @ [PlayLock], wasLocked := True \<rparr>
                   else sl)
             else (targetX s, targetY s, s\<lparr> lockedTarget := None, wasLocked := False \<rparr>))
      in s1\<lparr> crosshairX := js_add (crosshairX s1) (js_mul (js_sub finalTargetX (crosshairX s1)) smoothing),
             crosshairY := js_add (crosshairY s1) (js_mul (js_sub finalTargetY (crosshairY s1)) smoothing) \<rparr>)"

text \<open>
  The body of the second loop of \<open>update\<close>, for the disc with reference \<open>r\<close>: first the
  spawn-in scale, the floating position, the drift of the origin and its reflection at the
  bounds (\<open>driftDisc\<close>), then the test of the disc's age.
\<close>

definition driftDisc :: "int \<Rightarrow> game \<Rightarrow> nat \<Rightarrow> game" where
  "driftDisc now s r =
     (let data = objs s r;
          sc = (if scale data < 1 then min 1 (scale data + 0.05) else scale data);
          time = real_of_int now * 0.001;
          floatX = sin (time * floatFrequency data + floatPhase data) * floatAmplitude data;
          floatY = cos (time * floatFrequency data * 0.7 + floatPhase data)
                     * floatAmplitude data * 0.6;
          pos = (originX data + floatX, originY data + floatY);
          ox = originX data + fst (velocity data);
          oy = originY data + snd (velocity data);
          bounceX = (ox < minX \<or> ox > maxX);
          vx = (if bounceX then fst (velocity data) * - 1 else fst (velocity data));
          ox' = (if bounceX then max minX (min maxX ox) else ox);
          bounceY = (oy < minY \<or> oy > maxY);
          vy = (if bounceY then snd (velocity data) * - 1 else snd (velocity data));
          oy' = (if bounceY then max minY (min maxY oy) else oy);
          data' = data\<lparr> scale := sc, position := pos, originX := ox', originY := oy',
                        velocity := (vx, vy) \<rparr>
      in s\<lparr> objs := (objs s)(r := data') \<rparr>)"

definition updateDisc :: "env \<Rightarrow> int \<Rightarrow> game \<Rightarrow> nat \<Rightarrow> game" where
  "updateDisc e now s r =
     (let s1 = driftDisc now s r;
          age = now - createdAt (objs s1 r)
      in if age > lifeTime then repositionDisc e s1 r else s1)"

text \<open>
  The second loop runs over \<open>this.discs\<close>; its body never changes the array, so the loop
  visits the references the array held when it started.
\<close>

fun updateDiscs :: "env \<Rightarrow> int \<Rightarrow> nat list \<Rightarrow> game \<Rightarrow> game" where
  "updateDiscs e now [] s = s"
| "updateDiscs e now (r # rs) s = updateDiscs e now rs (updateDisc e now s r)"

definition update :: "env \<Rightarrow> game \<Rightarrow> game" where
  "update e s =
     (let s1 = magneticAim e s;
          now = dateNow e (dateCalls s1);
          s2 = s1\<lparr> dateCalls := dateCalls s1 + 1 \<rparr>;
          s3 = updateDiscs e now (discs s2) s2
      in topUp e s3)"

subsection \<open>Drivers\<close>

text \<open>
  \<open>gameLoop\<close> is the callback of \<open>requestAnimationFrame\<close>; rendering is left out, and
  \<open>update\<close> of the model raises nothing for the \<open>try\<close> to catch.
\<close>

definition gameLoop :: "env \<Rightarrow> game \<Rightarrow> game" where
  "gameLoop e s = (if \<not> running s then s else update e s)"

definition start :: "env \<Rightarrow> game \<Rightarrow> game" where
  "start e s =
     (let s1 = s\<lparr> running := True \<rparr>;
          s2 = s1\<lparr> timers := timers s1 @ map InitialSpawn [0..<maxCount] \<rparr>
      in gameLoop e s2)"

text \<open>The \<open>k\<close>-th pending \<open>setTimeout\<close> callback runs.\<close>

definition runTimer :: "env \<Rightarrow> game \<Rightarrow> timer \<Rightarrow> game" where
  "runTimer e s t =
     (case t of
        InitialSpawn i \<Rightarrow> createDisc e s
      | ShootCooldown \<Rightarrow> s\<lparr> isShooting := False \<rparr>
      | Respawn \<Rightarrow> (if length (discs s) < maxCount then createDisc e s else s))"

definition fireTimer :: "env \<Rightarrow> game \<Rightarrow> nat \<Rightarrow> game" where
  "fireTimer e s k =
     (if k < length (timers s)
      then runTimer e (s\<lparr> timers := take k (timers s) @ drop (Suc k) (timers s) \<rparr>) (timers s ! k)
      else s)"

definition pause :: "game \<Rightarrow> game" where
  "pause s = s\<lparr> running := False \<rparr>"

definition resume :: "env \<Rightarrow> game \<Rightarrow> game" where
  "resume e s = (if \<not> running s then gameLoop e (s\<lparr> running := True \<rparr>) else s)"

text \<open>
  What can happen to a game: the calls of the page (\<open>start\<close>, the callbacks of the hand
  tracker, the space key, pause and resume), an animation frame, and a pending timer
  running.
\<close>

datatype event =
  Start
| Frame
| GestureUpdate gesture_state
| GestureLost
| TimerFires nat
| KeySpace
| Pause
| Resume

fun step :: "env \<Rightarrow> game \<Rightarrow> event \<Rightarrow> game" where
  "step e s Start = start e s"
| "step e s Frame = gameLoop e s"
| "step e s (GestureUpdate g) = updateGesture e s g"
| "step e s GestureLost = onGestureLost s"
| "step e s (TimerFires k) = fireTimer e s k"
| "step e s KeySpace = (if state_isGunPose s then shoot e s else s)"
| "step e s Pause = pause s"
| "step e s Resume = resume e s"

definition run :: "env \<Rightarrow> game \<Rightarrow> event list \<Rightarrow> game" where
  "run e s evs = foldl (step e) s evs"

text \<open>The page hands the tracker's callbacks to the game.\<close>

fun deliver :: "env \<Rightarrow> game \<Rightarrow> callback \<Rightarrow> game" where
  "deliver e s (OnGestureUpdate g) = updateGesture e s g"
| "deliver e s OnTrackingLost = onGestureLost s"
| "deliver e s (OnLandmarksUpdate lms) = s"


section \<open>The specification's words, and concrete inputs\<close>

text \<open>The gesture state a detection frame publishes, when the call returns.\<close>

definition published :: "handTracker \<Rightarrow> landmark list list option \<Rightarrow> gesture_state option" where
  "published t r = (case processResults t r of Inl err \<Rightarrow> None | Inr (t', cbs) \<Rightarrow> Some (gestureState t'))"

text \<open>
  The classifier as the specification words it: the index finger is extended when its curl
  ratio, distance(tip, first joint) / distance(first joint, base joint), is above 0.8 and
  the tip is above the first joint on the screen (a smaller \<open>y\<close>); another finger is
  folded when its curl ratio relative to the wrist is below 1.3 or its tip is below its
  first joint; the confidence is 0.4 for the extended index plus 0.2 for each folded finger.
\<close>

definition spec_indexExtended :: "landmark list \<Rightarrow> bool" where
  "spec_indexExtended lms \<longleftrightarrow>
     js_lt (Fin 0.8) (js_div (distance (lms ! 8) (lms ! 6)) (distance (lms ! 6) (lms ! 5)))
     \<and> js_lt (py (lms ! 8)) (py (lms ! 6))"

definition spec_folded :: "landmark list \<Rightarrow> nat \<times> nat \<Rightarrow> bool" where
  "spec_folded lms f \<longleftrightarrow>
     js_lt (js_div (distance (lms ! fst f) (lms ! 0)) (distance (lms ! snd f) (lms ! 0))) (Fin 1.3)
     \<or> js_lt (py (lms ! snd f)) (py (lms ! fst f))"

definition spec_foldedCount :: "landmark list \<Rightarrow> nat" where
  "spec_foldedCount lms = length (filter (spec_folded lms) [(12, 10), (16, 14), (20, 18)])"

definition spec_confidence :: "landmark list \<Rightarrow> real" where
  "spec_confidence lms =
     (if spec_indexExtended lms then 0.4 else 0) + 0.2 * real (spec_foldedCount lms)"











text \<open>
  A hand that aims: the index finger points straight up, the other three fingers are
  curled (their tips below their PIP joints) and the thumb is raised. The second hand is
  the same with the index finger's PIP joint on its MCP joint.
\<close>

definition pt :: "real \<Rightarrow> real \<Rightarrow> landmark" where
  "pt a b = Landmark (Fin a) (Fin b) None"

definition aimingHand :: "landmark list" where
  "aimingHand =
     [pt 0.5 0.9,
      pt 0.42 0.82, pt 0.36 0.74, pt 0.33 0.66, pt 0.31 0.58,
      pt 0.45 0.6, pt 0.45 0.5, pt 0.45 0.4, pt 0.45 0.3,
      pt 0.5 0.6, pt 0.5 0.55, pt 0.5 0.6, pt 0.5 0.65,
      pt 0.55 0.62, pt 0.55 0.57, pt 0.55 0.62, pt 0.55 0.67,
      pt 0.6 0.65, pt 0.6 0.6, pt 0.6 0.64, pt 0.6 0.68]"

definition degenerateHand :: "landmark list" where
  "degenerateHand = aimingHand[5 := pt 0.45 0.5]"


text \<open>The tracker after the aiming hand has been its first frame, and what it published.\<close>

definition aimedGesture :: gesture_state where
  "aimedGesture = \<lparr> isGunPose = True, isThumbUp = True, fingerTip = (Fin 0.52, Fin 0.42),
                     confidence = Fin 1, landmarks = Some aimingHand \<rparr>"

definition aimedTracker :: handTracker where
  "aimedTracker = newHandTracker\<lparr> smoothedPosition := (Fin 0.52, Fin 0.42),
                                  gestureState := aimedGesture \<rparr>"

text \<open>
  An environment: a window of 800 by 600 pixels, a camera that shows the plane of the
  discs at 80 pixels per unit around the centre of the window, a clock that advances by
  16 ms per reading, and a generator that cycles through 0.1, 0.2, ..., 0.9, 0.
\<close>

definition env0 :: env where
  "env0 = \<lparr> mathRandom = (\<lambda>n. real ((n + 1) mod 10) / 10),
            dateNow = (\<lambda>n. 1700000000000 + 16 * int n),
            innerWidth = Fin 800,
            innerHeight = Fin 600,
            worldToScreen = (\<lambda>p. (Fin (400 + 80 * fst p), Fin (300 - 80 * snd p))) \<rparr>"

text \<open>Gesture states with the gun pose at the centre of the picture: thumb raised, thumb down.\<close>

definition thumbRaised :: gesture_state where
  "thumbRaised = \<lparr> isGunPose = True, isThumbUp = True, fingerTip = (Fin 0.5, Fin 0.5),
                    confidence = Fin 1, landmarks = None \<rparr>"

definition thumbDown :: gesture_state where
  "thumbDown = \<lparr> isGunPose = True, isThumbUp = False, fingerTip = (Fin 0.5, Fin 0.5),
                  confidence = Fin 1, landmarks = None \<rparr>"

text \<open>A hand that shows no gun pose, its thumb down.\<close>

definition otherPose :: gesture_state where
  "otherPose = \<lparr> isGunPose = False, isThumbUp = False, fingerTip = (Fin 0.5, Fin 0.5),
                  confidence = Fin 0.4, landmarks = None \<rparr>"

text \<open>
  Projections used to say what an operation leaves alone: the fields the target registry
  never writes apart from the lock (\<open>counters\<close>), the lock and the crosshair
  (\<open>lockState\<close>), and the registry with the two call counters (\<open>registry\<close>).
\<close>

definition counters ::
  "game \<Rightarrow> (int \<times> int \<times> int \<times> int \<times> int \<times> int \<times> int) \<times> (jsnum \<times> jsnum)
           \<times> (bool \<times> bool \<times> bool \<times> int \<times> bool) \<times> timer list \<times> int option" where
  "counters s =
     ((score s, combo s, maxCombo s, hits s, shots s, lastHitTime s, comboTimeout s),
      (targetX s, targetY s),
      (state_isGunPose s, wasThumbUp s, isShooting s, shootCooldown s, running s),
      timers s, accuracyDisplay s)"

definition lockState ::
  "game \<Rightarrow> nat option \<times> bool \<times> audio_event list \<times> jsnum \<times> jsnum" where
  "lockState s = (lockedTarget s, wasLocked s, audio s, crosshairX s, crosshairY s)"

definition registry :: "game \<Rightarrow> nat list \<times> (nat \<Rightarrow> disc) \<times> nat \<times> nat \<times> nat" where
  "registry s = (discs s, objs s, nextRef s, randomCalls s, dateCalls s)"

text \<open>The disc the first loop of \<open>update\<close> selects in a state, if any.\<close>

definition candidate :: "env \<Rightarrow> game \<Rightarrow> nat option" where
  "candidate e s = snd (findNearest e s (discs s) (PInf, None))"


text \<open>The state after the hit or the miss of a shot, before the accuracy is shown.\<close>

definition fired :: "env \<Rightarrow> game \<Rightarrow> game" where
  "fired e s =
     (let s1 = s\<lparr> isShooting := True, shots := shots s + 1, audio := audio s @ [PlayShoot] \<rparr>
      in case lockedTarget s1 of Some d \<Rightarrow> hitTarget e s1 d | None \<Rightarrow> miss s1)"




text \<open>
  Every reference of the array has been handed out by the store, and no disc is in the
  array twice.
\<close>

definition refs_ok :: "game \<Rightarrow> bool" where
  "refs_ok s \<longleftrightarrow> (\<forall>q\<in>set (discs s). q < nextRef s) \<and> distinct (discs s)"

text \<open>
  A frame that begins in state \<open>s\<close>: \<open>frameClock\<close> is the value its \<open>Date.now()\<close>
  gives to \<open>now\<close>, a disc is expired when its age at that time is above \<open>lifeTime\<close>,
  \<open>frameBefore e s i\<close> is the state in which the loop over \<open>this.discs\<close> reaches the
  disc at index \<open>i\<close>, and \<open>relocatedBefore e s i\<close> counts the expired discs before that
  index.
\<close>

definition frameClock :: "env \<Rightarrow> game \<Rightarrow> int" where
  "frameClock e s = dateNow e (dateCalls s)"

definition expired :: "env \<Rightarrow> game \<Rightarrow> nat \<Rightarrow> bool" where
  "expired e s r \<longleftrightarrow> lifeTime < frameClock e s - createdAt (objs s r)"

definition relocatedBefore :: "env \<Rightarrow> game \<Rightarrow> nat \<Rightarrow> nat" where
  "relocatedBefore e s i = length (filter (expired e s) (take i (discs s)))"

definition frameBefore :: "env \<Rightarrow> game \<Rightarrow> nat \<Rightarrow> game" where
  "frameBefore e s i =
     (let s1 = magneticAim e s;
          now = dateNow e (dateCalls s1);
          s2 = s1\<lparr> dateCalls := dateCalls s1 + 1 \<rparr>
      in updateDiscs e now (take i (discs s2)) s2)"

text \<open>
  The environment above with a clock that stands nine seconds later from its sixth
  reading on: the page was left alone between the first frame and the second.
\<close>

definition env1 :: env where
  "env1 = env0\<lparr> dateNow := (\<lambda>n. if n < 5 then 1700000000000 + 16 * int n
                                 else 1700000009000 + 16 * int n) \<rparr>"





text \<open>The number of lock notifications sent to the audio manager so far.\<close>

definition lockCalls :: "game \<Rightarrow> nat" where
  "lockCalls s = length (filter (\<lambda>a. a = PlayLock) (audio s))"


section \<open>Properties of the classifier\<close>

lemma distance_vertical:
  "distance (Landmark (Fin a) (Fin b) None) (Landmark (Fin a) (Fin c) None) = Fin \<bar>b - c\<bar>"
  by (simp add: distance_def js_sub_def)

lemma is_fin_add: "is_fin a \<Longrightarrow> is_fin b \<Longrightarrow> is_fin (js_add a b)"
  by (cases a; cases b) simp_all
lemma is_fin_sub: "is_fin a \<Longrightarrow> is_fin b \<Longrightarrow> is_fin (js_sub a b)"
  by (cases a; cases b) (simp_all add: js_sub_def)
lemma is_fin_mul: "is_fin a \<Longrightarrow> is_fin b \<Longrightarrow> is_fin (js_mul a b)"
  by (cases a; cases b) simp_all

lemma indexExtended_spec: "indexExtended lms = spec_indexExtended lms"
  by (simp add: indexExtended_def spec_indexExtended_def indexCurl_def js_gt_def)

lemma othersFolded_spec: "othersFolded lms = spec_foldedCount lms"
  by (simp add: othersFolded_def spec_foldedCount_def spec_folded_def middleFolded_def
      ringFolded_def pinkyFolded_def middleCurl_def ringCurl_def pinkyCurl_def js_gt_def)

lemma computeConfidence_spec: "computeConfidence lms = Fin (spec_confidence lms)"
  by (simp add: computeConfidence_def Let_def spec_confidence_def indexExtended_spec
      othersFolded_spec [symmetric] othersFolded_def)



lemma published_hand:
  "21 \<le> length lms \<Longrightarrow>
   published t (Some (lms # rest)) =
     Some \<lparr> isGunPose = gunPose lms, isThumbUp = thumbUp lms,
            fingerTip = smooth (smoothingFactor t) lms (smoothedPosition t),
            confidence = computeConfidence lms, landmarks = Some lms \<rparr>"
  by (simp add: published_def processResults_def Let_def)


















lemma aimingHand_index: "spec_indexExtended aimingHand"
  by (simp add: spec_indexExtended_def aimingHand_def pt_def distance_vertical)

lemma aimingHand_folded: "spec_foldedCount aimingHand = 3"
  by (simp add: spec_foldedCount_def spec_folded_def aimingHand_def pt_def)








lemma smooth_fin:
  "is_fin (px (lms ! 8)) \<Longrightarrow> is_fin (py (lms ! 8)) \<Longrightarrow> is_fin (fst sp) \<Longrightarrow> is_fin (snd sp)
   \<Longrightarrow> is_fin f
   \<Longrightarrow> is_fin (fst (smooth f lms sp)) \<and> is_fin (snd (smooth f lms sp))"
  by (simp add: smooth_def Let_def is_fin_add is_fin_sub is_fin_mul)

lemma processResults_hand:
  "21 \<le> length lms \<Longrightarrow>
   processResults t (Some (lms # rest)) =
     Inr (t\<lparr>smoothedPosition := smooth (smoothingFactor t) lms (smoothedPosition t),
            gestureState :=
              \<lparr> isGunPose = gunPose lms, isThumbUp = thumbUp lms,
                fingerTip = smooth (smoothingFactor t) lms (smoothedPosition t),
                confidence = computeConfidence lms, landmarks = Some lms \<rparr>\<rparr>,
          [OnGestureUpdate
              \<lparr> isGunPose = gunPose lms, isThumbUp = thumbUp lms,
                fingerTip = smooth (smoothingFactor t) lms (smoothedPosition t),
                confidence = computeConfidence lms, landmarks = Some lms \<rparr>,
           OnLandmarksUpdate lms])"
  by (simp add: processResults_def Let_def)

lemma indexCurl_zero_divisor:
  "distance (lms ! 6) (lms ! 5) = Fin 0 \<Longrightarrow> distance (lms ! 8) (lms ! 6) = Fin a \<Longrightarrow> 0 < a
   \<Longrightarrow> indexCurl lms = PInf"
  by (simp add: indexCurl_def)

text \<open>
  Claim C4, as the code has it. For a frame with a hand whose index fingertip has finite
  coordinates, joints may coincide: the published confidence and fingertip position are
  finite, and so is the smoothed position kept for the next frame. The curl ratios are
  not guarded: when the index finger's PIP joint lies on its MCP joint and the tip does
  not, the ratio is \<open>Infinity\<close>, the test \<open>> 0.8\<close> holds, and the frame is a gun pose
  as soon as the tip is above the joint and two other fingers are folded.
\<close>

theorem classifier_finite:
  assumes "21 \<le> length lms"
    and "is_fin (px (lms ! 8))" and "is_fin (py (lms ! 8))"
    and "is_fin (fst (smoothedPosition t))" and "is_fin (snd (smoothedPosition t))"
    and "is_fin (smoothingFactor t)"
  shows "\<exists>t' cbs. processResults t (Some (lms # rest)) = Inr (t', cbs)
           \<and> is_fin (confidence (gestureState t'))
           \<and> is_fin (fst (fingerTip (gestureState t'))) \<and> is_fin (snd (fingerTip (gestureState t')))
           \<and> is_fin (fst (smoothedPosition t')) \<and> is_fin (snd (smoothedPosition t'))
           \<and> is_fin (smoothingFactor t')
           \<and> (distance (lms ! 6) (lms ! 5) = Fin 0 \<and> (\<exists>a>0. distance (lms ! 8) (lms ! 6) = Fin a)
                \<longrightarrow> indexCurl lms = PInf
                  \<and> (isGunPose (gestureState t')
                       \<longleftrightarrow> js_lt (py (lms ! 8)) (py (lms ! 6)) \<and> 2 \<le> spec_foldedCount lms))"
proof -
  from assms have fin: "is_fin (fst (smooth (smoothingFactor t) lms (smoothedPosition t)))"
    "is_fin (snd (smooth (smoothingFactor t) lms (smoothedPosition t)))"
    using smooth_fin by blast+
  have deg: "indexCurl lms = PInf
      \<and> (gunPose lms \<longleftrightarrow> js_lt (py (lms ! 8)) (py (lms ! 6)) \<and> 2 \<le> spec_foldedCount lms)"
    if "distance (lms ! 6) (lms ! 5) = Fin 0" "\<exists>a>0. distance (lms ! 8) (lms ! 6) = Fin a"
    using that indexCurl_zero_divisor [of lms]
    by (auto simp: gunPose_def indexExtended_def othersFolded_spec js_gt_def)
  show ?thesis
    using assms(1,6) fin deg
    by (simp add: processResults_hand computeConfidence_spec)
qed

lemma degenerateHand_nth:
  "degenerateHand ! 5 = pt 0.45 0.5" "degenerateHand ! 6 = pt 0.45 0.5"
  "degenerateHand ! 8 = pt 0.45 0.3"
  by (simp_all add: degenerateHand_def aimingHand_def)

lemma degenerateHand_divisor: "distance (degenerateHand ! 6) (degenerateHand ! 5) = Fin 0"
  by (simp add: degenerateHand_nth pt_def distance_vertical)

lemma degenerateHand_folded: "spec_foldedCount degenerateHand = 3"
  by (simp add: spec_foldedCount_def spec_folded_def degenerateHand_def aimingHand_def pt_def)

lemma degenerateHand_length: "21 \<le> length degenerateHand"
  by (simp add: degenerateHand_def aimingHand_def)

lemma degenerateHand_tip: "distance (degenerateHand ! 8) (degenerateHand ! 6) = Fin 0.2"
  by (simp add: degenerateHand_nth pt_def distance_vertical)

lemma degenerateHand_curl: "indexCurl degenerateHand = PInf"
  using indexCurl_zero_divisor [OF degenerateHand_divisor degenerateHand_tip] by simp

lemma degenerateHand_gunPose: "gunPose degenerateHand"
  by (simp add: gunPose_def indexExtended_def othersFolded_spec degenerateHand_folded js_gt_def
      degenerateHand_curl degenerateHand_nth pt_def)

text \<open>
  The degenerate hand (index PIP on index MCP) is published as a gun pose.
\<close>

theorem classifier_degenerate_counterexample:
  "distance (degenerateHand ! 6) (degenerateHand ! 5) = Fin 0
   \<and> indexCurl degenerateHand = PInf
   \<and> map_option isGunPose (published newHandTracker (Some [degenerateHand])) = Some True"
  by (simp add: degenerateHand_divisor degenerateHand_curl degenerateHand_gunPose
      published_hand [OF degenerateHand_length])

theorem classifier_finite_witness:
  "21 \<le> length degenerateHand
   \<and> is_fin (px (degenerateHand ! 8)) \<and> is_fin (py (degenerateHand ! 8))
   \<and> is_fin (fst (smoothedPosition newHandTracker)) \<and> is_fin (snd (smoothedPosition newHandTracker))
   \<and> is_fin (smoothingFactor newHandTracker)
   \<and> distance (degenerateHand ! 6) (degenerateHand ! 5) = Fin 0
   \<and> distance (degenerateHand ! 8) (degenerateHand ! 6) = Fin 0.2
   \<and> map_option (\<lambda>g. is_fin (confidence g) \<and> is_fin (fst (fingerTip g)) \<and> is_fin (snd (fingerTip g)))
        (published newHandTracker (Some [degenerateHand])) = Some True"
proof -
  have h: "21 \<le> length degenerateHand" "is_fin (px (degenerateHand ! 8))"
    "is_fin (py (degenerateHand ! 8))" "is_fin (fst (smoothedPosition newHandTracker))"
    "is_fin (snd (smoothedPosition newHandTracker))" "is_fin (smoothingFactor newHandTracker)"
    by (simp_all add: degenerateHand_nth pt_def newHandTracker_def degenerateHand_length)
  from classifier_finite [OF h, of "[]"] h degenerateHand_tip degenerateHand_divisor
  show ?thesis
    by (auto simp: published_def)
qed

text \<open>
  Claim C10. A frame without a hand changes \<open>isGunPose\<close>, \<open>confidence\<close> and
  \<open>landmarks\<close> of the published gesture state and nothing else: the fingertip, the thumb
  state and the smoothed position stay; its only callback is the tracking-lost one, and
  the game's handler of it clears the game's gun pose and leaves the aim target where it
  was.
\<close>

theorem no_hand_frame:
  assumes "r = None \<or> r = Some []"
  shows "\<exists>t'. processResults t r = Inr (t', [OnTrackingLost])
           \<and> gestureState t' =
               (gestureState t)\<lparr>isGunPose := False, confidence := Fin 0, landmarks := None\<rparr>
           \<and> fingerTip (gestureState t') = fingerTip (gestureState t)
           \<and> isThumbUp (gestureState t') = isThumbUp (gestureState t)
           \<and> smoothedPosition t' = smoothedPosition t
           \<and> smoothingFactor t' = smoothingFactor t
           \<and> foldl (deliver e) s [OnTrackingLost] = s\<lparr>state_isGunPose := False\<rparr>
           \<and> targetX (foldl (deliver e) s [OnTrackingLost]) = targetX s
           \<and> targetY (foldl (deliver e) s [OnTrackingLost]) = targetY s"
  using assms by (auto simp: processResults_def onGestureLost_def)

lemma aimingHand_published:
  "processResults newHandTracker (Some [aimingHand]) =
     Inr (aimedTracker, [OnGestureUpdate aimedGesture, OnLandmarksUpdate aimingHand])"
proof -
  have len: "21 \<le> length aimingHand"
    by (simp add: aimingHand_def)
  have "gunPose aimingHand"
    by (simp add: gunPose_def indexExtended_spec othersFolded_spec aimingHand_index
        aimingHand_folded)
  moreover have "thumbUp aimingHand"
    by (simp add: thumbUp_def aimingHand_def pt_def js_sub_def)
  moreover have "computeConfidence aimingHand = Fin 1"
    by (simp add: computeConfidence_spec spec_confidence_def aimingHand_index aimingHand_folded)
  moreover have "smooth (Fin 0.4) aimingHand (Fin 0.5, Fin 0.5) = (Fin 0.52, Fin 0.42)"
    by (simp add: smooth_def aimingHand_def pt_def js_sub_def)
  ultimately show ?thesis
    by (simp add: processResults_hand [OF len] aimedTracker_def aimedGesture_def
        newHandTracker_def)
qed

theorem no_hand_frame_witness:
  "processResults aimedTracker None =
     Inr (aimedTracker\<lparr>gestureState :=
            aimedGesture\<lparr>isGunPose := False, confidence := Fin 0, landmarks := None\<rparr>\<rparr>,
          [OnTrackingLost])
   \<and> targetX (updateGesture env0 (newGame env0) aimedGesture) = Fin 416
   \<and> targetY (updateGesture env0 (newGame env0) aimedGesture) = Fin 252
   \<and> targetX (foldl (deliver env0) (updateGesture env0 (newGame env0) aimedGesture)
        [OnTrackingLost]) = Fin 416
   \<and> targetY (foldl (deliver env0) (updateGesture env0 (newGame env0) aimedGesture)
        [OnTrackingLost]) = Fin 252"
proof -
  have tx: "targetX (updateGesture env0 (newGame env0) aimedGesture) = Fin 416"
    and ty: "targetY (updateGesture env0 (newGame env0) aimedGesture) = Fin 252"
    by (simp_all add: updateGesture_def aimedGesture_def env0_def newGame_def Let_def)
  from no_hand_frame [of None aimedTracker env0
      "updateGesture env0 (newGame env0) aimedGesture"]
  obtain t' where t': "processResults aimedTracker None = Inr (t', [OnTrackingLost])"
    "gestureState t' =
       (gestureState aimedTracker)\<lparr>isGunPose := False, confidence := Fin 0, landmarks := None\<rparr>"
    "targetX (foldl (deliver env0) (updateGesture env0 (newGame env0) aimedGesture)
        [OnTrackingLost]) = targetX (updateGesture env0 (newGame env0) aimedGesture)"
    "targetY (foldl (deliver env0) (updateGesture env0 (newGame env0) aimedGesture)
        [OnTrackingLost]) = targetY (updateGesture env0 (newGame env0) aimedGesture)"
    by auto
  have "processResults aimedTracker None =
     Inr (aimedTracker\<lparr>gestureState :=
            aimedGesture\<lparr>isGunPose := False, confidence := Fin 0, landmarks := None\<rparr>\<rparr>,
          [OnTrackingLost])"
    by (simp add: processResults_def aimedTracker_def)
  with t' tx ty show ?thesis
    by simp
qed


section \<open>Properties of the game\<close>

subsection \<open>What the operations leave alone\<close>

lemma counters_createDisc [simp]: "counters (createDisc e s) = counters s"
  by (simp add: counters_def createDisc_def Let_def split: prod.splits)

lemma lockState_createDisc [simp]: "lockState (createDisc e s) = lockState s"
  by (simp add: lockState_def createDisc_def Let_def split: prod.splits)

lemma counters_repositionDisc [simp]: "counters (repositionDisc e s r) = counters s"
  by (simp add: counters_def repositionDisc_def Let_def split: prod.splits)

lemma lockState_repositionDisc [simp]: "lockState (repositionDisc e s r) = lockState s"
  by (simp add: lockState_def repositionDisc_def Let_def split: prod.splits)

lemma counters_driftDisc [simp]: "counters (driftDisc now s r) = counters s"
  by (simp add: counters_def driftDisc_def Let_def)

lemma lockState_driftDisc [simp]: "lockState (driftDisc now s r) = lockState s"
  by (simp add: lockState_def driftDisc_def Let_def)

lemma counters_updateDisc [simp]: "counters (updateDisc e now s r) = counters s"
  by (simp add: updateDisc_def Let_def)

lemma lockState_updateDisc [simp]: "lockState (updateDisc e now s r) = lockState s"
  by (simp add: updateDisc_def Let_def)

lemma counters_updateDiscs [simp]: "counters (updateDiscs e now rs s) = counters s"
  by (induction rs arbitrary: s) simp_all

lemma lockState_updateDiscs [simp]: "lockState (updateDiscs e now rs s) = lockState s"
  by (induction rs arbitrary: s) simp_all

lemma counters_topUp [simp]: "counters (topUp e s) = counters s"
proof (induction e s rule: topUp.induct)
  case (1 e s)
  then show ?case
    by (subst topUp.simps) simp
qed

lemma lockState_topUp [simp]: "lockState (topUp e s) = lockState s"
proof (induction e s rule: topUp.induct)
  case (1 e s)
  then show ?case
    by (subst topUp.simps) simp
qed

lemma counters_magneticAim [simp]: "counters (magneticAim e s) = counters s"
  by (simp add: counters_def magneticAim_def Let_def split: prod.splits)

lemma registry_magneticAim [simp]: "registry (magneticAim e s) = registry s"
  by (simp add: registry_def magneticAim_def Let_def split: prod.splits)

lemma counters_dateCalls [simp]: "counters (s\<lparr>dateCalls := n\<rparr>) = counters s"
  by (simp add: counters_def)

lemma lockState_dateCalls [simp]: "lockState (s\<lparr>dateCalls := n\<rparr>) = lockState s"
  by (simp add: lockState_def)

lemma counters_update [simp]: "counters (update e s) = counters s"
  by (simp add: update_def Let_def)

lemma lockState_update: "lockState (update e s) = lockState (magneticAim e s)"
  by (simp add: update_def Let_def)

lemma countersD:
  assumes "counters s' = counters s"
  shows "score s' = score s" "combo s' = combo s" "maxCombo s' = maxCombo s"
    "hits s' = hits s" "shots s' = shots s" "lastHitTime s' = lastHitTime s"
    "comboTimeout s' = comboTimeout s" "targetX s' = targetX s" "targetY s' = targetY s"
    "state_isGunPose s' = state_isGunPose s" "wasThumbUp s' = wasThumbUp s"
    "isShooting s' = isShooting s" "shootCooldown s' = shootCooldown s"
    "running s' = running s" "timers s' = timers s" "accuracyDisplay s' = accuracyDisplay s"
  using assms by (simp_all add: counters_def)

lemmas update_fields = countersD [OF counters_update]
lemmas createDisc_fields = countersD [OF counters_createDisc]


subsection \<open>Combo and accuracy\<close>

lemma combo_hitTarget:
  "combo (hitTarget e s d) =
     (if dateNow e (dateCalls s) - lastHitTime s < comboTimeout s then min (combo s + 1) 10 else 1)"
  by (simp add: hitTarget_def Let_def removeDisc_def)

lemma combo_miss: "combo (miss s) = 1"
  by (simp add: miss_def)

lemma combo_updateAccuracy [simp]: "combo (updateAccuracy s) = combo s"
  by (simp add: updateAccuracy_def)

lemma combo_shoot:
  "combo (shoot e s) =
     (if isShooting s then combo s
      else case lockedTarget s of
             None \<Rightarrow> 1
           | Some d \<Rightarrow> (if dateNow e (dateCalls s) - lastHitTime s < comboTimeout s
                        then min (combo s + 1) 10 else 1))"
  by (simp add: shoot_def Let_def combo_hitTarget combo_miss split: option.splits)

lemma combo_shoot_bounds:
  "1 \<le> combo s \<Longrightarrow> combo s \<le> 10 \<Longrightarrow> 1 \<le> combo (shoot e s) \<and> combo (shoot e s) \<le> 10"
  by (simp add: combo_shoot split: option.splits)

lemma combo_step_bounds:
  "1 \<le> combo s \<Longrightarrow> combo s \<le> 10 \<Longrightarrow> 1 \<le> combo (step e s ev) \<and> combo (step e s ev) \<le> 10"
proof (cases ev)
  case (GestureUpdate g)
  assume "1 \<le> combo s" "combo s \<le> 10"
  then show ?thesis
    by (simp add: GestureUpdate updateGesture_def Let_def combo_shoot split: option.splits)
next
  case (TimerFires k)
  assume "1 \<le> combo s" "combo s \<le> 10"
  then show ?thesis
    by (simp add: TimerFires fireTimer_def runTimer_def createDisc_fields split: timer.splits)
next
  case KeySpace
  assume "1 \<le> combo s" "combo s \<le> 10"
  then show ?thesis
    using combo_shoot_bounds [of s e] by (simp add: KeySpace)
qed (simp_all add: start_def gameLoop_def onGestureLost_def pause_def resume_def update_fields Let_def)

lemma combo_run_bounds:
  "1 \<le> combo s \<Longrightarrow> combo s \<le> 10 \<Longrightarrow> 1 \<le> combo (run e s evs) \<and> combo (run e s evs) \<le> 10"
  unfolding run_def
proof (induction evs arbitrary: s)
  case Nil
  then show ?case by simp
next
  case (Cons ev evs)
  then show ?case
    using combo_step_bounds [of s e ev] by simp
qed

lemma hitTarget_fields:
  "hits (hitTarget e s d) = hits s + 1"
  "shots (hitTarget e s d) = shots s"
  "accuracyDisplay (hitTarget e s d) = accuracyDisplay s"
  "comboTimeout (hitTarget e s d) = comboTimeout s"
  "wasThumbUp (hitTarget e s d) = wasThumbUp s"
  "isShooting (hitTarget e s d) = isShooting s"
  "state_isGunPose (hitTarget e s d) = state_isGunPose s"
  "wasLocked (hitTarget e s d) = wasLocked s"
  "lockedTarget (hitTarget e s d) = None"
  "lastHitTime (hitTarget e s d) = dateNow e (dateCalls s)"
  by (simp_all add: hitTarget_def Let_def removeDisc_def)

lemma miss_fields:
  "hits (miss s) = hits s"
  "shots (miss s) = shots s"
  "accuracyDisplay (miss s) = accuracyDisplay s"
  "comboTimeout (miss s) = comboTimeout s"
  "wasThumbUp (miss s) = wasThumbUp s"
  "isShooting (miss s) = isShooting s"
  "state_isGunPose (miss s) = state_isGunPose s"
  "wasLocked (miss s) = wasLocked s"
  "lockedTarget (miss s) = lockedTarget s"
  by (simp_all add: miss_def)

lemma updateAccuracy_fields:
  "hits (updateAccuracy s) = hits s"
  "shots (updateAccuracy s) = shots s"
  "comboTimeout (updateAccuracy s) = comboTimeout s"
  "wasThumbUp (updateAccuracy s) = wasThumbUp s"
  "isShooting (updateAccuracy s) = isShooting s"
  "state_isGunPose (updateAccuracy s) = state_isGunPose s"
  "wasLocked (updateAccuracy s) = wasLocked s"
  "lockedTarget (updateAccuracy s) = lockedTarget s"
  "timers (updateAccuracy s) = timers s"
  by (simp_all add: updateAccuracy_def)

















lemma shoot_fired:
  "shoot e s =
     (if isShooting s then s
      else (updateAccuracy (fired e s))\<lparr>timers := timers (fired e s) @ [ShootCooldown]\<rparr>)"
  by (simp add: shoot_def fired_def Let_def updateAccuracy_fields)

lemma fired_fields:
  "hits (fired e s) = (if lockedTarget s = None then hits s else hits s + 1)"
  "shots (fired e s) = shots s + 1"
  "accuracyDisplay (fired e s) = accuracyDisplay s"
  "comboTimeout (fired e s) = comboTimeout s"
  "wasThumbUp (fired e s) = wasThumbUp s"
  "isShooting (fired e s) = True"
  "state_isGunPose (fired e s) = state_isGunPose s"
  "wasLocked (fired e s) = wasLocked s"
  by (simp_all add: fired_def Let_def hitTarget_fields miss_fields split: option.splits)

lemma shoot_counts:
  "hits (shoot e s) = (if isShooting s \<or> lockedTarget s = None then hits s else hits s + 1)"
  "shots (shoot e s) = (if isShooting s then shots s else shots s + 1)"
  "comboTimeout (shoot e s) = comboTimeout s"
  "wasThumbUp (shoot e s) = wasThumbUp s"
  "isShooting (shoot e s) = True \<or> isShooting s"
  "state_isGunPose (shoot e s) = state_isGunPose s"
  "wasLocked (shoot e s) = wasLocked s"
  by (simp_all add: shoot_fired updateAccuracy_fields fired_fields)












lemma comboTimeout_step: "comboTimeout (step e s ev) = comboTimeout s"
proof (cases ev)
  case (GestureUpdate g)
  then show ?thesis
    by (simp add: updateGesture_def Let_def shoot_counts)
next
  case (TimerFires k)
  then show ?thesis
    by (simp add: fireTimer_def runTimer_def createDisc_fields split: timer.splits)
next
  case KeySpace
  then show ?thesis
    by (simp add: shoot_counts)
qed (simp_all add: start_def gameLoop_def onGestureLost_def pause_def resume_def update_fields Let_def)

lemma comboTimeout_run: "comboTimeout (run e s evs) = comboTimeout s"
  unfolding run_def
  by (induction evs arbitrary: s) (simp_all add: comboTimeout_step)

text \<open>
  Claim C1. Whatever happens to a new game, the combo stays between 1 and 10 and the combo
  timeout stays 2000 ms. A hit less than the timeout after the previous hit sets the combo
  to \<open>min (combo + 1) 10\<close>, a hit at or after the timeout sets it to 1, and a miss (a
  shot with no locked target) sets it to 1.
\<close>

theorem combo_machine:
  "1 \<le> combo (run e (newGame e) evs) \<and> combo (run e (newGame e) evs) \<le> 10
   \<and> comboTimeout (run e (newGame e) evs) = 2000
   \<and> combo (hitTarget e s d) =
       (if dateNow e (dateCalls s) - lastHitTime s < comboTimeout s
        then min (combo s + 1) 10 else 1)
   \<and> lastHitTime (hitTarget e s d) = dateNow e (dateCalls s)
   \<and> combo (miss s) = 1
   \<and> combo (shoot e s) =
       (if isShooting s then combo s
        else case lockedTarget s of
               None \<Rightarrow> 1
             | Some d' \<Rightarrow> (if dateNow e (dateCalls s) - lastHitTime s < comboTimeout s
                           then min (combo s + 1) 10 else 1))"
proof -
  have "1 \<le> combo (newGame e)" "combo (newGame e) \<le> 10" "comboTimeout (newGame e) = 2000"
    by (simp_all add: newGame_def)
  then show ?thesis
    using combo_run_bounds [of "newGame e" e evs]
    by (simp add: comboTimeout_run combo_hitTarget combo_miss combo_shoot hitTarget_fields)
qed

theorem combo_machine_witness:
  "combo (run env0 (newGame env0) [GestureUpdate thumbDown]) = 1
   \<and> combo (hitTarget env0 ((newGame env0)\<lparr>combo := 3, lastHitTime := 1699999998500\<rparr>) 0) = 4
   \<and> combo (hitTarget env0 ((newGame env0)\<lparr>combo := 3, lastHitTime := 1699999998000\<rparr>) 0) = 1
   \<and> combo (hitTarget env0 ((newGame env0)\<lparr>combo := 10, lastHitTime := 1699999998500\<rparr>) 0) = 10"
proof -
  have "combo (run env0 (newGame env0) [GestureUpdate thumbDown]) = 1"
    using combo_machine [of env0 "[GestureUpdate thumbDown]" "(newGame env0)\<lparr>state_isGunPose := True,
        targetX := Fin 400, targetY := Fin 300\<rparr>" 0]
    by (simp add: run_def updateGesture_def Let_def thumbDown_def newGame_def env0_def)
  moreover have "combo (hitTarget env0 ((newGame env0)\<lparr>combo := 3, lastHitTime := 1699999998500\<rparr>) 0) = 4"
    using combo_machine [of env0 "[]" "(newGame env0)\<lparr>combo := 3, lastHitTime := 1699999998500\<rparr>" 0]
    by (simp add: newGame_def env0_def)
  moreover have "combo (hitTarget env0 ((newGame env0)\<lparr>combo := 3, lastHitTime := 1699999998000\<rparr>) 0) = 1"
    using combo_machine [of env0 "[]" "(newGame env0)\<lparr>combo := 3, lastHitTime := 1699999998000\<rparr>" 0]
    by (simp add: newGame_def env0_def)
  moreover have "combo (hitTarget env0 ((newGame env0)\<lparr>combo := 10, lastHitTime := 1699999998500\<rparr>) 0) = 10"
    using combo_machine [of env0 "[]" "(newGame env0)\<lparr>combo := 10, lastHitTime := 1699999998500\<rparr>" 0]
    by (simp add: newGame_def env0_def)
  ultimately show ?thesis
    by simp
qed

subsection \<open>Trigger edge detector\<close>

lemma shots_updateGesture:
  "shots (updateGesture e s g) =
     (if isGunPose g \<and> \<not> isThumbUp g \<and> wasThumbUp s \<and> \<not> isShooting s
      then shots s + 1 else shots s)"
  by (simp add: updateGesture_def Let_def shoot_counts)

lemma wasThumbUp_updateGesture:
  "wasThumbUp (updateGesture e s g) = (if isGunPose g then isThumbUp g else True)"
  by (simp add: updateGesture_def Let_def)

lemma isShooting_updateGesture:
  "isShooting (updateGesture e s g) =
     (isShooting s \<or> (isGunPose g \<and> \<not> isThumbUp g \<and> wasThumbUp s))"
  using shoot_counts(5) [of e "s\<lparr>state_isGunPose := True,
      targetX := js_mul (fst (fingerTip g)) (innerWidth e),
      targetY := js_mul (snd (fingerTip g)) (innerHeight e)\<rparr>"]
  by (auto simp: updateGesture_def Let_def)

text \<open>
  Claim C2, as the code has it. A gesture update fires exactly when it shows the gun pose
  with the thumb down while \<open>wasThumbUp\<close> is true and \<open>isShooting\<close> is false; it never
  fires while \<open>isShooting\<close>. A fire sets \<open>isShooting\<close> and clears \<open>wasThumbUp\<close>, so two
  updates in a row fire at most once; a hand without the gun pose sets \<open>wasThumbUp\<close>.
  Tracking loss does not keep the next reading from firing: when \<open>wasThumbUp\<close> was true
  and no shot was cooling down before the loss, a first reading of the gun pose with the
  thumb down fires.
\<close>

theorem trigger_edge:
  "shots (updateGesture e s g) =
     (if isGunPose g \<and> \<not> isThumbUp g \<and> wasThumbUp s \<and> \<not> isShooting s
      then shots s + 1 else shots s)
   \<and> isShooting (updateGesture e s g) =
       (isShooting s \<or> (isGunPose g \<and> \<not> isThumbUp g \<and> wasThumbUp s))
   \<and> wasThumbUp (updateGesture e s g) = (if isGunPose g then isThumbUp g else True)
   \<and> shots (updateGesture e (updateGesture e s g) g') \<le> shots s + 1
   \<and> (isShooting s \<longrightarrow> shots (updateGesture e s g) = shots s)
   \<and> (wasThumbUp s \<and> \<not> isShooting s \<and> isGunPose g \<and> \<not> isThumbUp g
        \<longrightarrow> shots (updateGesture e (onGestureLost s) g) = shots s + 1)"
  by (simp add: shots_updateGesture isShooting_updateGesture wasThumbUp_updateGesture
      onGestureLost_def)

theorem trigger_edge_witness:
  "shots (updateGesture env0 (newGame env0) thumbDown) = 1
   \<and> shots (updateGesture env0 (updateGesture env0 (newGame env0) thumbDown) thumbDown) = 1
   \<and> isShooting (updateGesture env0 (newGame env0) thumbDown)
   \<and> shots (updateGesture env0 (newGame env0) thumbRaised) = 0"
  using trigger_edge [of env0 "newGame env0" thumbDown thumbDown]
    trigger_edge [of env0 "newGame env0" thumbRaised thumbDown]
    trigger_edge [of env0 "updateGesture env0 (newGame env0) thumbDown" thumbDown thumbDown]
  by (simp add: thumbDown_def thumbRaised_def newGame_def)

text \<open>
  Thumb raised, hand lost, hand back with the thumb down: the first reading fires. After a
  fire the tracking-lost handler leaves \<open>wasThumbUp\<close> false. And with the thumb down in
  every reading, a reading without the gun pose between two cooldowns lets the detector
  fire twice.
\<close>

lemma timers_first_shot:
  "timers (updateGesture env0 (newGame env0) thumbDown) = [ShootCooldown]"
  by (simp add: updateGesture_def Let_def shoot_def miss_def updateAccuracy_def
      thumbDown_def newGame_def)

theorem trigger_reacquire_counterexample:
  "shots (run env0 (newGame env0) [GestureUpdate thumbRaised, GestureLost]) = 0
   \<and> shots (run env0 (newGame env0) [GestureUpdate thumbRaised, GestureLost, GestureUpdate thumbDown]) = 1
   \<and> \<not> wasThumbUp (run env0 (newGame env0) [GestureUpdate thumbDown])
   \<and> \<not> wasThumbUp (run env0 (newGame env0) [GestureUpdate thumbDown, GestureLost])
   \<and> shots (run env0 (newGame env0)
         [GestureUpdate thumbDown, TimerFires 0, GestureUpdate otherPose, GestureUpdate thumbDown]) = 2"
proof -
  define s1 where "s1 = updateGesture env0 (newGame env0) thumbDown"
  define s2 where "s2 = fireTimer env0 s1 0"
  define s3 where "s3 = updateGesture env0 s2 otherPose"
  have s1: "shots s1 = 1" "isShooting s1" "timers s1 = [ShootCooldown]"
    unfolding s1_def
    by (simp_all add: shots_updateGesture isShooting_updateGesture timers_first_shot)
      (simp_all add: thumbDown_def newGame_def)
  have s2: "shots s2 = 1" "\<not> isShooting s2"
    by (simp_all add: s2_def fireTimer_def runTimer_def s1)
  have s3: "shots s3 = 1" "\<not> isShooting s3" "wasThumbUp s3"
    unfolding s3_def
    by (simp_all add: shots_updateGesture isShooting_updateGesture wasThumbUp_updateGesture s2)
      (simp_all add: otherPose_def)
  have "shots (updateGesture env0 s3 thumbDown) = 2"
    by (simp add: shots_updateGesture s3) (simp add: thumbDown_def)
  then have "shots (run env0 (newGame env0)
         [GestureUpdate thumbDown, TimerFires 0, GestureUpdate otherPose, GestureUpdate thumbDown]) = 2"
    by (simp add: run_def s1_def s2_def s3_def)
  then show ?thesis
    by (simp add: run_def shots_updateGesture wasThumbUp_updateGesture isShooting_updateGesture
      onGestureLost_def thumbDown_def thumbRaised_def newGame_def)
qed

subsection \<open>Target registry\<close>

lemma driftDisc_keeps:
  "discs (driftDisc now s r) = discs s"
  "nextRef (driftDisc now s r) = nextRef s"
  "randomCalls (driftDisc now s r) = randomCalls s"
  "dateCalls (driftDisc now s r) = dateCalls s"
  "color (objs (driftDisc now s r) r') = color (objs s r')"
  "points (objs (driftDisc now s r) r') = points (objs s r')"
  "createdAt (objs (driftDisc now s r) r') = createdAt (objs s r')"
  "r' \<noteq> r \<Longrightarrow> objs (driftDisc now s r) r' = objs s r'"
  by (simp_all add: driftDisc_def Let_def)

lemma repositionDisc_keeps:
  "discs (repositionDisc e s r) = discs s"
  "nextRef (repositionDisc e s r) = nextRef s"
  "dateCalls (repositionDisc e s r) = dateCalls s + 1"
  "color (objs (repositionDisc e s r) r') = color (objs s r')"
  "points (objs (repositionDisc e s r) r') = points (objs s r')"
  "r' \<noteq> r \<Longrightarrow> objs (repositionDisc e s r) r' = objs s r'"
  "createdAt (objs (repositionDisc e s r) r) = dateNow e (dateCalls s)"
  by (simp_all add: repositionDisc_def Let_def split: prod.splits)

lemma updateDisc_keeps:
  "discs (updateDisc e now s r) = discs s"
  "nextRef (updateDisc e now s r) = nextRef s"
  "color (objs (updateDisc e now s r) r') = color (objs s r')"
  "points (objs (updateDisc e now s r) r') = points (objs s r')"
  "r' \<noteq> r \<Longrightarrow> objs (updateDisc e now s r) r' = objs s r'"
  by (simp_all add: updateDisc_def Let_def driftDisc_keeps repositionDisc_keeps)

lemma updateDiscs_keeps:
  "discs (updateDiscs e now rs s) = discs s"
  "nextRef (updateDiscs e now rs s) = nextRef s"
  "color (objs (updateDiscs e now rs s) r') = color (objs s r')"
  "points (objs (updateDiscs e now rs s) r') = points (objs s r')"
  by (induction rs arbitrary: s) (simp_all add: updateDisc_keeps)

lemma createDisc_keeps:
  "nextRef (createDisc e s) = nextRef s + 1"
  "r' \<noteq> nextRef s \<Longrightarrow> objs (createDisc e s) r' = objs s r'"
  by (simp_all add: createDisc_def Let_def split: prod.splits)

lemma topUp_length: "length (discs (topUp e s)) = max (length (discs s)) maxCount"
proof (induction e s rule: topUp.induct)
  case (1 e s)
  show ?case
  proof (cases "length (discs s) < maxCount")
    case True
    with 1 show ?thesis
      by (subst topUp.simps) (simp add: discs_createDisc)
  next
    case False
    then show ?thesis
      by (subst topUp.simps) simp
  qed
qed

lemma topUp_keeps:
  "nextRef s \<le> nextRef (topUp e s)
   \<and> (\<forall>r'<nextRef s. objs (topUp e s) r' = objs s r')
   \<and> (\<exists>new. discs (topUp e s) = discs s @ new)"
proof (induction e s rule: topUp.induct)
  case (1 e s)
  show ?case
  proof (cases "length (discs s) < maxCount")
    case True
    then have eq: "topUp e s = topUp e (createDisc e s)"
      by (subst topUp.simps) simp
    from 1 [OF True] obtain new where
      ih: "nextRef (createDisc e s) \<le> nextRef (topUp e (createDisc e s))"
        "\<forall>r'<nextRef (createDisc e s). objs (topUp e (createDisc e s)) r' = objs (createDisc e s) r'"
        "discs (topUp e (createDisc e s)) = discs (createDisc e s) @ new"
      by blast
    from ih(1) have "nextRef s \<le> nextRef (topUp e s)"
      by (simp add: eq createDisc_keeps)
    moreover have "\<forall>r'<nextRef s. objs (topUp e s) r' = objs s r'"
      using ih(2) by (simp add: eq createDisc_keeps)
    moreover have "discs (topUp e s) = discs s @ (nextRef s # new)"
      using ih(3) by (simp add: eq discs_createDisc)
    ultimately show ?thesis
      by blast
  next
    case False
    then have "topUp e s = s"
      by (subst topUp.simps) simp
    then show ?thesis
      by simp
  qed
qed

lemma update_discs:
  "length (discs (update e s)) = max (length (discs s)) maxCount"
  "\<exists>new. discs (update e s) = discs s @ new"
proof -
  have d: "discs (magneticAim e s) = discs s"
    using registry_magneticAim [of e s] by (simp add: registry_def)
  show "length (discs (update e s)) = max (length (discs s)) maxCount"
    by (simp add: update_def Let_def topUp_length updateDiscs_keeps d)
  show "\<exists>new. discs (update e s) = discs s @ new"
    using topUp_keeps [of "updateDiscs e (dateNow e (dateCalls (magneticAim e s))) (discs s)
        (magneticAim e s\<lparr>dateCalls := Suc (dateCalls (magneticAim e s))\<rparr>)" e]
    by (simp add: update_def Let_def updateDiscs_keeps d)
qed

lemma fireTimer_spawn:
  "timers s = InitialSpawn i # ts \<Longrightarrow> fireTimer e s 0 = createDisc e (s\<lparr>timers := ts\<rparr>)"
  by (simp add: fireTimer_def runTimer_def)

lemma start_state:
  "timers (start e (newGame e)) = map InitialSpawn [0..<maxCount]"
  "length (discs (start e (newGame e))) = maxCount"
  "running (start e (newGame e))"
  by (simp_all add: start_def gameLoop_def Let_def update_fields update_discs)
    (simp_all add: newGame_def)

lemma spawn_timer_adds:
  assumes "timers s = InitialSpawn i # ts"
  shows "timers (fireTimer e s 0) = ts" "length (discs (fireTimer e s 0)) = length (discs s) + 1"
  by (simp_all add: fireTimer_spawn [OF assms] createDisc_fields discs_createDisc)

text \<open>
  Claim C3, on the code. \<open>start\<close> leaves four spawn timers pending and runs the first
  frame at once; the frame's top-up loop already brings the registry to \<open>maxCount\<close>, and
  each of the four timers then adds a disc unconditionally: after the start sequence the
  registry holds eight discs, and the next frame keeps them.
\<close>

theorem startup_overfill:
  "maxCount = 4
   \<and> length (discs (run e (newGame e) [Start])) = 4
   \<and> length (discs (run e (newGame e) [Start, TimerFires 0])) = 5
   \<and> length (discs (run e (newGame e)
        [Start, TimerFires 0, TimerFires 0, TimerFires 0, TimerFires 0])) = 8
   \<and> timers (run e (newGame e)
        [Start, TimerFires 0, TimerFires 0, TimerFires 0, TimerFires 0]) = []
   \<and> length (discs (run e (newGame e)
        [Start, TimerFires 0, TimerFires 0, TimerFires 0, TimerFires 0, Frame])) = 8"
proof -
  define s0 where "s0 = start e (newGame e)"
  define s1 where "s1 = fireTimer e s0 0"
  define s2 where "s2 = fireTimer e s1 0"
  define s3 where "s3 = fireTimer e s2 0"
  define s4 where "s4 = fireTimer e s3 0"
  have u: "[0..<maxCount] = [0, 1, 2, 3]"
    by (simp add: maxCount_def upt_rec)
  have s0: "timers s0 = [InitialSpawn 0, InitialSpawn 1, InitialSpawn 2, InitialSpawn 3]"
    "length (discs s0) = 4" "running s0"
    using start_state [of e] by (simp_all add: s0_def u) (simp add: maxCount_def)
  have s1: "timers s1 = [InitialSpawn 1, InitialSpawn 2, InitialSpawn 3]" "length (discs s1) = 5"
    "running s1"
    using spawn_timer_adds [OF s0(1), of e] s0
    by (simp_all add: s1_def fireTimer_spawn [OF s0(1)] createDisc_fields)
  have s2: "timers s2 = [InitialSpawn 2, InitialSpawn 3]" "length (discs s2) = 6" "running s2"
    using spawn_timer_adds [OF s1(1), of e] s1
    by (simp_all add: s2_def fireTimer_spawn [OF s1(1)] createDisc_fields)
  have s3: "timers s3 = [InitialSpawn 3]" "length (discs s3) = 7" "running s3"
    using spawn_timer_adds [OF s2(1), of e] s2
    by (simp_all add: s3_def fireTimer_spawn [OF s2(1)] createDisc_fields)
  have s4: "timers s4 = []" "length (discs s4) = 8" "running s4"
    using spawn_timer_adds [OF s3(1), of e] s3
    by (simp_all add: s4_def fireTimer_spawn [OF s3(1)] createDisc_fields)
  have s5: "length (discs (gameLoop e s4)) = 8"
    using s4 by (simp add: gameLoop_def update_discs maxCount_def)
  show ?thesis
    using s0 s1 s2 s3 s4 s5
    by (simp add: run_def s0_def s1_def s2_def s3_def s4_def maxCount_def)
qed

theorem startup_overfill_witness:
  "length (discs (run env0 (newGame env0)
        [Start, TimerFires 0, TimerFires 0, TimerFires 0, TimerFires 0])) = 8
   \<and> maxCount < length (discs (run env0 (newGame env0)
        [Start, TimerFires 0, TimerFires 0, TimerFires 0, TimerFires 0]))"
  using startup_overfill [of env0] by simp

lemma refs_ok_createDisc: "refs_ok s \<Longrightarrow> refs_ok (createDisc e s)"
  by (auto simp: refs_ok_def discs_createDisc createDisc_keeps)

lemma refs_ok_topUp: "refs_ok s \<Longrightarrow> refs_ok (topUp e s)"
proof (induction e s rule: topUp.induct)
  case (1 e s)
  show ?case
  proof (cases "length (discs s) < maxCount")
    case True
    with 1 show ?thesis
      by (subst topUp.simps) (simp add: refs_ok_createDisc)
  next
    case False
    with 1 show ?thesis
      by (subst topUp.simps) simp
  qed
qed

lemma refs_ok_registry: "registry s' = registry s \<Longrightarrow> refs_ok s' = refs_ok s"
  by (simp add: refs_ok_def registry_def)

lemma refs_ok_same: "discs s' = discs s \<Longrightarrow> nextRef s' = nextRef s \<Longrightarrow> refs_ok s' = refs_ok s"
  by (simp add: refs_ok_def)

lemma refs_ok_update: "refs_ok s \<Longrightarrow> refs_ok (update e s)"
proof -
  assume "refs_ok s"
  then have "refs_ok (magneticAim e s)"
    by (simp add: refs_ok_registry [OF registry_magneticAim])
  then have "refs_ok (updateDiscs e (dateNow e (dateCalls (magneticAim e s))) (discs (magneticAim e s))
      (magneticAim e s\<lparr>dateCalls := dateCalls (magneticAim e s) + 1\<rparr>))"
    by (simp add: refs_ok_def updateDiscs_keeps)
  then show ?thesis
    by (simp add: update_def Let_def refs_ok_topUp)
qed

lemma registry_hitTarget:
  "nextRef (hitTarget e s d) = nextRef s" "set (discs (hitTarget e s d)) \<subseteq> set (discs s)"
  using set_remove1_subset [of d "discs s"]
  by (simp_all add: hitTarget_def Let_def removeDisc_def)

lemma registry_fired:
  "nextRef (fired e s) = nextRef s" "set (discs (fired e s)) \<subseteq> set (discs s)"
  using registry_hitTarget(2) [of e "s\<lparr>isShooting := True, shots := shots s + 1,
      audio := audio s @ [PlayShoot]\<rparr>"]
  by (simp_all add: fired_def Let_def registry_hitTarget miss_def split: option.splits)

lemma registry_shoot:
  "nextRef (shoot e s) = nextRef s" "set (discs (shoot e s)) \<subseteq> set (discs s)"
  using registry_fired [of e s]
  by (simp_all add: shoot_fired updateAccuracy_def)

lemma distinct_hitTarget: "distinct (discs s) \<Longrightarrow> distinct (discs (hitTarget e s d))"
  by (simp add: hitTarget_def Let_def removeDisc_def)

lemma distinct_fired: "distinct (discs s) \<Longrightarrow> distinct (discs (fired e s))"
  by (simp add: fired_def Let_def distinct_hitTarget miss_def split: option.splits)

lemma distinct_shoot: "distinct (discs s) \<Longrightarrow> distinct (discs (shoot e s))"
  by (simp add: shoot_fired updateAccuracy_def distinct_fired)

lemma refs_ok_shoot: "refs_ok s \<Longrightarrow> refs_ok (shoot e s)"
  using registry_shoot [of e s] distinct_shoot [of s e] by (auto simp: refs_ok_def)

lemma refs_ok_fields:
  "refs_ok (s\<lparr>state_isGunPose := a\<rparr>) = refs_ok s"
  "refs_ok (s\<lparr>wasThumbUp := b\<rparr>) = refs_ok s"
  "refs_ok (s\<lparr>targetX := x\<rparr>) = refs_ok s"
  "refs_ok (s\<lparr>targetY := y\<rparr>) = refs_ok s"
  "refs_ok (s\<lparr>isShooting := c\<rparr>) = refs_ok s"
  "refs_ok (s\<lparr>running := d\<rparr>) = refs_ok s"
  "refs_ok (s\<lparr>timers := ts\<rparr>) = refs_ok s"
  by (simp_all add: refs_ok_def)

lemma refs_ok_step: "refs_ok s \<Longrightarrow> refs_ok (step e s ev)"
proof (cases ev)
  case (GestureUpdate g)
  assume "refs_ok s"
  then show ?thesis
    by (simp add: GestureUpdate updateGesture_def Let_def refs_ok_fields refs_ok_shoot)
next
  case (TimerFires k)
  assume "refs_ok s"
  then show ?thesis
    by (simp add: TimerFires fireTimer_def runTimer_def refs_ok_fields refs_ok_createDisc
        split: timer.splits)
next
  case KeySpace
  assume "refs_ok s"
  then show ?thesis
    by (simp add: KeySpace refs_ok_shoot)
qed (simp_all add: start_def gameLoop_def onGestureLost_def pause_def resume_def Let_def
    refs_ok_fields refs_ok_update)

lemma refs_ok_run: "refs_ok s \<Longrightarrow> refs_ok (run e s evs)"
  unfolding run_def
  by (induction evs arbitrary: s) (simp_all add: refs_ok_step)

lemma refs_ok_newGame: "refs_ok (newGame e)"
  by (simp add: refs_ok_def newGame_def)

lemma update_keeps:
  assumes "refs_ok s" and "q \<in> set (discs s)"
  shows "color (objs (update e s) q) = color (objs s q)"
    and "points (objs (update e s) q) = points (objs s q)"
proof -
  define s1 where "s1 = magneticAim e s"
  define s3 where "s3 = updateDiscs e (dateNow e (dateCalls s1)) (discs s1)
      (s1\<lparr>dateCalls := dateCalls s1 + 1\<rparr>)"
  have r1: "registry s1 = registry s"
    by (simp add: s1_def)
  then have o1: "objs s1 = objs s" "nextRef s1 = nextRef s"
    by (simp_all add: registry_def)
  have n3: "nextRef s3 = nextRef s"
    by (simp add: s3_def updateDiscs_keeps o1)
  from assms have "q < nextRef s3"
    by (simp add: refs_ok_def n3)
  with topUp_keeps [of s3 e] have "objs (topUp e s3) q = objs s3 q"
    by simp
  moreover have "update e s = topUp e s3"
    by (simp add: update_def Let_def s1_def s3_def)
  ultimately show "color (objs (update e s) q) = color (objs s q)"
    and "points (objs (update e s) q) = points (objs s q)"
    by (simp_all add: s3_def updateDiscs_keeps o1)
qed

lemma repositionDisc_new:
  "pickPosition e s (randomCalls s) 0 = (x, y, n) \<Longrightarrow>
   originX (objs (repositionDisc e s r) r) = x
   \<and> originY (objs (repositionDisc e s r) r) = y
   \<and> floatPhase (objs (repositionDisc e s r) r) = mathRandom e n * pi * 2
   \<and> velocity (objs (repositionDisc e s r) r) =
       (cos (mathRandom e (n + 1) * pi * 2) * floatSpeed,
        sin (mathRandom e (n + 1) * pi * 2) * floatSpeed)
   \<and> createdAt (objs (repositionDisc e s r) r) = dateNow e (dateCalls s)
   \<and> position (objs (repositionDisc e s r) r) = position (objs s r)
   \<and> scale (objs (repositionDisc e s r) r) = scale (objs s r)
   \<and> randomCalls (repositionDisc e s r) = n + 2"
  by (simp add: repositionDisc_def Let_def)

lemma updateDiscs_append:
  "updateDiscs e now (xs @ ys) s = updateDiscs e now ys (updateDiscs e now xs s)"
  by (induction xs arbitrary: s) simp_all

lemma updateDiscs_other:
  "r \<notin> set rs \<Longrightarrow> objs (updateDiscs e now rs s) r = objs s r"
  by (induction rs arbitrary: s) (simp_all add: updateDisc_keeps)

lemma distinct_nth_apart:
  assumes "distinct rs" and "i < length rs"
  shows "rs ! i \<notin> set (take i rs)" and "rs ! i \<notin> set (drop (Suc i) rs)"
proof -
  have "distinct (take i rs @ rs ! i # drop (Suc i) rs)"
    using assms by (simp only: id_take_nth_drop [symmetric])
  then show "rs ! i \<notin> set (take i rs)" and "rs ! i \<notin> set (drop (Suc i) rs)"
    by auto
qed

lemma updateDiscs_nth:
  assumes "distinct rs" and "i < length rs"
  shows "objs (updateDiscs e now rs s) (rs ! i)
           = objs (updateDisc e now (updateDiscs e now (take i rs) s) (rs ! i)) (rs ! i)"
proof -
  have "updateDiscs e now rs s = updateDiscs e now (take i rs @ rs ! i # drop (Suc i) rs) s"
    using assms(2) by (simp only: id_take_nth_drop [symmetric])
  also have "\<dots> = updateDiscs e now (drop (Suc i) rs)
                    (updateDisc e now (updateDiscs e now (take i rs) s) (rs ! i))"
    by (simp add: updateDiscs_append)
  finally show ?thesis
    by (simp add: updateDiscs_other distinct_nth_apart(2) [OF assms])
qed

lemma updateDisc_dateCalls:
  "dateCalls (updateDisc e now s r)
     = dateCalls s + (if lifeTime < now - createdAt (objs s r) then 1 else 0)"
  by (simp add: updateDisc_def Let_def driftDisc_keeps repositionDisc_keeps)

lemma updateDisc_createdAt:
  "createdAt (objs (updateDisc e now s r) r)
     = (if lifeTime < now - createdAt (objs s r) then dateNow e (dateCalls s)
        else createdAt (objs s r))"
  by (simp add: updateDisc_def Let_def driftDisc_keeps repositionDisc_keeps)

lemma updateDiscs_dateCalls:
  "distinct rs \<Longrightarrow>
   dateCalls (updateDiscs e now rs s)
     = dateCalls s + length (filter (\<lambda>r. lifeTime < now - createdAt (objs s r)) rs)"
proof (induction rs arbitrary: s)
  case Nil
  show ?case
    by simp
next
  case (Cons r rs)
  then have d: "distinct rs" and n: "r \<notin> set rs"
    by simp_all
  have same: "filter (\<lambda>q. lifeTime < now - createdAt (objs (updateDisc e now s r) q)) rs
                = filter (\<lambda>q. lifeTime < now - createdAt (objs s q)) rs"
  proof (rule filter_cong [OF refl])
    fix q
    assume "q \<in> set rs"
    with n have "q \<noteq> r"
      by auto
    then show "(lifeTime < now - createdAt (objs (updateDisc e now s r) q))
                 = (lifeTime < now - createdAt (objs s q))"
      by (simp add: updateDisc_keeps)
  qed
  show ?case
    by (simp add: Cons.IH [OF d] same updateDisc_dateCalls)
qed

lemma frame_relocation:
  assumes ok: "refs_ok s" and i: "i < length (discs s)"
  shows "objs (update e s) (discs s ! i)
           = objs (updateDisc e (frameClock e s) (frameBefore e s i) (discs s ! i)) (discs s ! i)"
    and "objs (frameBefore e s i) (discs s ! i) = objs s (discs s ! i)"
    and "dateCalls (frameBefore e s i) = dateCalls s + 1 + relocatedBefore e s i"
    and "createdAt (objs (update e s) (discs s ! i))
           = (if expired e s (discs s ! i)
              then dateNow e (dateCalls s + 1 + relocatedBefore e s i)
              else createdAt (objs s (discs s ! i)))"
proof -
  define q where "q = discs s ! i"
  define s1 where "s1 = magneticAim e s"
  define now where "now = dateNow e (dateCalls s1)"
  define s2 where "s2 = s1\<lparr> dateCalls := dateCalls s1 + 1 \<rparr>"
  define s3 where "s3 = updateDiscs e now (discs s2) s2"
  define m where "m = updateDiscs e now (take i (discs s2)) s2"
  have "registry s1 = registry s"
    by (simp add: s1_def)
  then have r1: "discs s1 = discs s" "objs s1 = objs s" "nextRef s1 = nextRef s"
    "dateCalls s1 = dateCalls s"
    by (simp_all add: registry_def)
  have r2: "discs s2 = discs s" "objs s2 = objs s" "nextRef s2 = nextRef s"
    "dateCalls s2 = dateCalls s + 1"
    by (simp_all add: s2_def r1)
  have clock: "now = frameClock e s"
    by (simp add: now_def frameClock_def r1)
  have before: "frameBefore e s i = m"
    by (simp add: frameBefore_def Let_def m_def s2_def now_def s1_def)
  have u: "update e s = topUp e s3"
    by (simp add: update_def Let_def s3_def s2_def now_def s1_def)
  from ok have dist: "distinct (discs s)" and below: "q < nextRef s"
    using i by (simp_all add: refs_ok_def q_def)
  have "nextRef s3 = nextRef s"
    by (simp add: s3_def updateDiscs_keeps r2)
  with below topUp_keeps [of s3 e] have "objs (topUp e s3) q = objs s3 q"
    by simp
  also have "objs s3 q = objs (updateDisc e now m q) q"
    unfolding s3_def m_def q_def r2 by (rule updateDiscs_nth [OF dist i])
  finally have c1: "objs (update e s) q = objs (updateDisc e now m q) q"
    by (simp add: u)
  have "q \<notin> set (take i (discs s))"
    unfolding q_def by (rule distinct_nth_apart(1) [OF dist i])
  then have c2: "objs m q = objs s q"
    by (simp add: m_def r2 updateDiscs_other)
  have "distinct (take i (discs s))"
    using dist by simp
  then have c3: "dateCalls m = dateCalls s + 1 + relocatedBefore e s i"
    by (simp add: m_def r2 updateDiscs_dateCalls relocatedBefore_def expired_def [abs_def] clock)
  have c4: "createdAt (objs (update e s) q)
           = (if expired e s q then dateNow e (dateCalls s + 1 + relocatedBefore e s i)
              else createdAt (objs s q))"
    by (simp add: c1 updateDisc_createdAt c2 c3 expired_def clock)
  show "objs (update e s) (discs s ! i)
           = objs (updateDisc e (frameClock e s) (frameBefore e s i) (discs s ! i)) (discs s ! i)"
    using c1 by (simp add: before clock q_def)
  show "objs (frameBefore e s i) (discs s ! i) = objs s (discs s ! i)"
    using c2 by (simp add: before q_def)
  show "dateCalls (frameBefore e s i) = dateCalls s + 1 + relocatedBefore e s i"
    using c3 by (simp add: before)
  show "createdAt (objs (update e s) (discs s ! i))
           = (if expired e s (discs s ! i)
              then dateNow e (dateCalls s + 1 + relocatedBefore e s i)
              else createdAt (objs s (discs s ! i)))"
    using c4 by (simp add: q_def)
qed

lemma createDisc_clock:
  "dateCalls (createDisc e s) = dateCalls s + 1"
  "createdAt (objs (createDisc e s) (nextRef s)) = dateNow e (dateCalls s)"
  "points (objs (createDisc e s) (nextRef s)) = 100"
  by (simp_all add: createDisc_def Let_def split: prod.splits)

lemma started_registry:
  "discs (run e (newGame e) [Start]) = [0, Suc 0, 2, 3]"
  "dateCalls (run e (newGame e) [Start]) = 5"
  "createdAt (objs (run e (newGame e) [Start]) 0) = dateNow e 1"
  "createdAt (objs (run e (newGame e) [Start]) (Suc 0)) = dateNow e 2"
  "createdAt (objs (run e (newGame e) [Start]) 2) = dateNow e 3"
  "createdAt (objs (run e (newGame e) [Start]) 3) = dateNow e 4"
  "points (objs (run e (newGame e) [Start]) (Suc 0)) = 100"
proof -
  define s where "s = (newGame e)\<lparr>running := True,
      timers := timers (newGame e) @ map InitialSpawn [0..<maxCount]\<rparr>"
  define s1 where "s1 = magneticAim e s"
  define s2 where "s2 = s1\<lparr>dateCalls := dateCalls s1 + 1\<rparr>"
  define c1 where "c1 = createDisc e s2"
  define c2 where "c2 = createDisc e c1"
  define c3 where "c3 = createDisc e c2"
  define c4 where "c4 = createDisc e c3"
  have "registry s1 = registry s"
    by (simp add: s1_def)
  then have r2: "discs s2 = []" "nextRef s2 = 0" "dateCalls s2 = 1"
    by (simp_all add: registry_def s2_def) (simp_all add: s_def newGame_def)
  have k1: "discs c1 = [0]" "nextRef c1 = Suc 0" "dateCalls c1 = 2"
    "createdAt (objs c1 0) = dateNow e 1"
    using createDisc_clock [of e s2]
    by (simp_all add: c1_def discs_createDisc createDisc_keeps r2)
  have k2: "discs c2 = [0, Suc 0]" "nextRef c2 = 2" "dateCalls c2 = 3"
    "createdAt (objs c2 0) = dateNow e 1" "createdAt (objs c2 (Suc 0)) = dateNow e 2"
    "points (objs c2 (Suc 0)) = 100"
    using createDisc_clock [of e c1]
    by (simp_all add: c2_def discs_createDisc createDisc_keeps k1)
  have k3: "discs c3 = [0, Suc 0, 2]" "nextRef c3 = 3" "dateCalls c3 = 4"
    "createdAt (objs c3 0) = dateNow e 1" "createdAt (objs c3 (Suc 0)) = dateNow e 2"
    "createdAt (objs c3 2) = dateNow e 3" "points (objs c3 (Suc 0)) = 100"
    using createDisc_clock [of e c2]
    by (simp_all add: c3_def discs_createDisc createDisc_keeps k2)
  have k4: "discs c4 = [0, Suc 0, 2, 3]" "nextRef c4 = 4" "dateCalls c4 = 5"
    "createdAt (objs c4 0) = dateNow e 1" "createdAt (objs c4 (Suc 0)) = dateNow e 2"
    "createdAt (objs c4 2) = dateNow e 3" "createdAt (objs c4 3) = dateNow e 4"
    "points (objs c4 (Suc 0)) = 100"
    using createDisc_clock [of e c3]
    by (simp_all add: c4_def discs_createDisc createDisc_keeps k3)
  have "topUp e s2 = topUp e c1"
    by (subst topUp.simps) (simp add: r2 maxCount_def c1_def)
  also have "\<dots> = topUp e c2"
    by (subst topUp.simps) (simp add: k1 maxCount_def c2_def)
  also have "\<dots> = topUp e c3"
    by (subst topUp.simps) (simp add: k2 maxCount_def c3_def)
  also have "\<dots> = topUp e c4"
    by (subst topUp.simps) (simp add: k3 maxCount_def c4_def)
  also have "\<dots> = c4"
    by (subst topUp.simps) (simp add: k4 maxCount_def)
  finally have t: "topUp e s2 = c4" .
  have "update e s = topUp e (updateDiscs e (dateNow e (dateCalls s1)) (discs s2) s2)"
    by (simp add: update_def Let_def s1_def s2_def)
  then have "update e s = c4"
    by (simp add: r2 t)
  then have "run e (newGame e) [Start] = c4"
    by (simp add: run_def start_def gameLoop_def Let_def s_def)
  with k4 show "discs (run e (newGame e) [Start]) = [0, Suc 0, 2, 3]"
    "dateCalls (run e (newGame e) [Start]) = 5"
    "createdAt (objs (run e (newGame e) [Start]) 0) = dateNow e 1"
    "createdAt (objs (run e (newGame e) [Start]) (Suc 0)) = dateNow e 2"
    "createdAt (objs (run e (newGame e) [Start]) 2) = dateNow e 3"
    "createdAt (objs (run e (newGame e) [Start]) 3) = dateNow e 4"
    "points (objs (run e (newGame e) [Start]) (Suc 0)) = 100"
    by simp_all
qed

text \<open>
  Claim C9. In the frame's loop a disc whose age is above \<open>lifeTime\<close> (8000 ms) is
  relocated in place: its origin, float phase, drift velocity and creation time are set
  anew (the position picked by the bounded retry loop, the time read from the clock),
  while the array of discs, the disc's reference in it, its colour and its points stay
  as they are and no other disc is touched; a disc at or below the threshold keeps its
  creation time. Over a whole frame every disc of a reachable state keeps its place in
  the array, its colour and its points, and the frame does to it what one pass of the
  loop's body does, with the time the frame read before the loop: the disc is as
  \<open>updateDisc\<close> leaves it in the state the loop has reached, where the disc itself is
  still as the frame found it. So a disc that is expired at the frame's time is
  relocated, its creation time being the clock's next reading after those of the frame
  and of the expired discs before it, and a disc that is not expired only drifts.
\<close>

theorem relocation_in_place:
  "(lifeTime < now - createdAt (objs s r) \<longrightarrow>
      updateDisc e now s r = repositionDisc e (driftDisc now s r) r
      \<and> createdAt (objs (updateDisc e now s r) r) = dateNow e (dateCalls s)
      \<and> (originX (objs (updateDisc e now s r) r), originY (objs (updateDisc e now s r) r),
          randomCalls (updateDisc e now s r))
         = (case pickPosition e (driftDisc now s r) (randomCalls s) 0 of
              (x, y, n) \<Rightarrow> (x, y, n + 2))
      \<and> (floatPhase (objs (updateDisc e now s r) r), velocity (objs (updateDisc e now s r) r))
         = (case pickPosition e (driftDisc now s r) (randomCalls s) 0 of
              (x, y, n) \<Rightarrow>
                (mathRandom e n * pi * 2,
                 (cos (mathRandom e (n + 1) * pi * 2) * floatSpeed,
                  sin (mathRandom e (n + 1) * pi * 2) * floatSpeed))))
   \<and> (\<not> lifeTime < now - createdAt (objs s r) \<longrightarrow>
        updateDisc e now s r = driftDisc now s r
        \<and> createdAt (objs (updateDisc e now s r) r) = createdAt (objs s r))
   \<and> discs (updateDisc e now s r) = discs s
   \<and> nextRef (updateDisc e now s r) = nextRef s
   \<and> color (objs (updateDisc e now s r) r') = color (objs s r')
   \<and> points (objs (updateDisc e now s r) r') = points (objs s r')
   \<and> (r' \<noteq> r \<longrightarrow> objs (updateDisc e now s r) r' = objs s r')
   \<and> (s' = run e (newGame e) evs \<and> q \<in> set (discs s') \<longrightarrow>
        (\<exists>new. discs (update e s') = discs s' @ new)
        \<and> color (objs (update e s') q) = color (objs s' q)
        \<and> points (objs (update e s') q) = points (objs s' q))
   \<and> (s' = run e (newGame e) evs \<and> i < length (discs s') \<longrightarrow>
        discs (update e s') ! i = discs s' ! i
        \<and> objs (update e s') (discs s' ! i)
            = objs (updateDisc e (frameClock e s') (frameBefore e s' i) (discs s' ! i))
                (discs s' ! i)
        \<and> objs (frameBefore e s' i) (discs s' ! i) = objs s' (discs s' ! i)
        \<and> dateCalls (frameBefore e s' i) = dateCalls s' + 1 + relocatedBefore e s' i
        \<and> (expired e s' (discs s' ! i) \<longrightarrow>
             objs (update e s') (discs s' ! i)
               = objs (repositionDisc e
                         (driftDisc (frameClock e s') (frameBefore e s' i) (discs s' ! i))
                         (discs s' ! i)) (discs s' ! i)
             \<and> createdAt (objs (update e s') (discs s' ! i))
                 = dateNow e (dateCalls s' + 1 + relocatedBefore e s' i))
        \<and> (\<not> expired e s' (discs s' ! i) \<longrightarrow>
             objs (update e s') (discs s' ! i)
               = objs (driftDisc (frameClock e s') (frameBefore e s' i) (discs s' ! i))
                   (discs s' ! i)
             \<and> createdAt (objs (update e s') (discs s' ! i))
                 = createdAt (objs s' (discs s' ! i))))"
proof -
  have old: "lifeTime < now - createdAt (objs s r) \<Longrightarrow>
      updateDisc e now s r = repositionDisc e (driftDisc now s r) r"
    and young: "\<not> lifeTime < now - createdAt (objs s r) \<Longrightarrow>
      updateDisc e now s r = driftDisc now s r"
    by (simp_all add: updateDisc_def Let_def driftDisc_keeps)
  obtain x y n where p: "pickPosition e (driftDisc now s r) (randomCalls s) 0 = (x, y, n)"
    by (cases "pickPosition e (driftDisc now s r) (randomCalls s) 0") auto
  from repositionDisc_new [of e "driftDisc now s r" x y n r] p
  have new: "originX (objs (repositionDisc e (driftDisc now s r) r) r) = x"
    "originY (objs (repositionDisc e (driftDisc now s r) r) r) = y"
    "floatPhase (objs (repositionDisc e (driftDisc now s r) r) r) = mathRandom e n * pi * 2"
    "velocity (objs (repositionDisc e (driftDisc now s r) r) r) =
       (cos (mathRandom e (n + 1) * pi * 2) * floatSpeed,
        sin (mathRandom e (n + 1) * pi * 2) * floatSpeed)"
    "createdAt (objs (repositionDisc e (driftDisc now s r) r) r) = dateNow e (dateCalls s)"
    "randomCalls (repositionDisc e (driftDisc now s r) r) = n + 2"
    by (simp_all add: driftDisc_keeps)
  have reach: "refs_ok (run e (newGame e) evs)"
    by (simp add: refs_ok_run refs_ok_newGame)
  have upd: "s' = run e (newGame e) evs \<and> q \<in> set (discs s') \<longrightarrow>
        (\<exists>new. discs (update e s') = discs s' @ new)
        \<and> color (objs (update e s') q) = color (objs s' q)
        \<and> points (objs (update e s') q) = points (objs s' q)"
    using update_keeps [OF reach, of q e] update_discs(2) [of e "run e (newGame e) evs"]
    by auto
  have call: "(lifeTime < now - createdAt (objs s r) \<longrightarrow>
      updateDisc e now s r = repositionDisc e (driftDisc now s r) r
      \<and> createdAt (objs (updateDisc e now s r) r) = dateNow e (dateCalls s)
      \<and> (originX (objs (updateDisc e now s r) r), originY (objs (updateDisc e now s r) r),
          randomCalls (updateDisc e now s r))
         = (case pickPosition e (driftDisc now s r) (randomCalls s) 0 of
              (x, y, n) \<Rightarrow> (x, y, n + 2))
      \<and> (floatPhase (objs (updateDisc e now s r) r), velocity (objs (updateDisc e now s r) r))
         = (case pickPosition e (driftDisc now s r) (randomCalls s) 0 of
              (x, y, n) \<Rightarrow>
                (mathRandom e n * pi * 2,
                 (cos (mathRandom e (n + 1) * pi * 2) * floatSpeed,
                  sin (mathRandom e (n + 1) * pi * 2) * floatSpeed))))
   \<and> (\<not> lifeTime < now - createdAt (objs s r) \<longrightarrow>
        updateDisc e now s r = driftDisc now s r
        \<and> createdAt (objs (updateDisc e now s r) r) = createdAt (objs s r))
   \<and> discs (updateDisc e now s r) = discs s
   \<and> nextRef (updateDisc e now s r) = nextRef s
   \<and> color (objs (updateDisc e now s r) r') = color (objs s r')
   \<and> points (objs (updateDisc e now s r) r') = points (objs s r')
   \<and> (r' \<noteq> r \<longrightarrow> objs (updateDisc e now s r) r' = objs s r')"
    using old young new p
    by (simp add: updateDisc_keeps driftDisc_keeps)
  have frame: "discs (update e s') ! i = discs s' ! i
        \<and> objs (update e s') (discs s' ! i)
            = objs (updateDisc e (frameClock e s') (frameBefore e s' i) (discs s' ! i))
                (discs s' ! i)
        \<and> objs (frameBefore e s' i) (discs s' ! i) = objs s' (discs s' ! i)
        \<and> dateCalls (frameBefore e s' i) = dateCalls s' + 1 + relocatedBefore e s' i
        \<and> (expired e s' (discs s' ! i) \<longrightarrow>
             objs (update e s') (discs s' ! i)
               = objs (repositionDisc e
                         (driftDisc (frameClock e s') (frameBefore e s' i) (discs s' ! i))
                         (discs s' ! i)) (discs s' ! i)
             \<and> createdAt (objs (update e s') (discs s' ! i))
                 = dateNow e (dateCalls s' + 1 + relocatedBefore e s' i))
        \<and> (\<not> expired e s' (discs s' ! i) \<longrightarrow>
             objs (update e s') (discs s' ! i)
               = objs (driftDisc (frameClock e s') (frameBefore e s' i) (discs s' ! i))
                   (discs s' ! i)
             \<and> createdAt (objs (update e s') (discs s' ! i))
                 = createdAt (objs s' (discs s' ! i)))"
    if s': "s' = run e (newGame e) evs" and i: "i < length (discs s')"
  proof -
    define q' where "q' = discs s' ! i"
    define m where "m = frameBefore e s' i"
    have ok: "refs_ok s'"
      using reach s' by simp
    note f = frame_relocation [OF ok i, of e, folded q'_def m_def]
    from update_discs(2) [of e s'] obtain new where "discs (update e s') = discs s' @ new"
      by blast
    then have c0: "discs (update e s') ! i = q'"
      using i by (simp add: nth_append q'_def)
    have age: "createdAt (objs (driftDisc (frameClock e s') m q') q') = createdAt (objs s' q')"
      by (simp add: driftDisc_keeps f(2))
    have o: "expired e s' q' \<Longrightarrow>
        updateDisc e (frameClock e s') m q' = repositionDisc e (driftDisc (frameClock e s') m q') q'"
      and y: "\<not> expired e s' q' \<Longrightarrow>
        updateDisc e (frameClock e s') m q' = driftDisc (frameClock e s') m q'"
      by (simp_all add: updateDisc_def Let_def age expired_def)
    have c5: "expired e s' q' \<longrightarrow>
             objs (update e s') q'
               = objs (repositionDisc e (driftDisc (frameClock e s') m q') q') q'
             \<and> createdAt (objs (update e s') q')
                 = dateNow e (dateCalls s' + 1 + relocatedBefore e s' i)"
    proof
      assume x: "expired e s' q'"
      have "objs (update e s') q'
               = objs (repositionDisc e (driftDisc (frameClock e s') m q') q') q'"
        using f(1) o [OF x] by simp
      moreover have "createdAt (objs (update e s') q')
                 = dateNow e (dateCalls s' + 1 + relocatedBefore e s' i)"
        using f(4) x by simp
      ultimately show "objs (update e s') q'
               = objs (repositionDisc e (driftDisc (frameClock e s') m q') q') q'
             \<and> createdAt (objs (update e s') q')
                 = dateNow e (dateCalls s' + 1 + relocatedBefore e s' i)"
        by (rule conjI)
    qed
    have c6: "\<not> expired e s' q' \<longrightarrow>
             objs (update e s') q' = objs (driftDisc (frameClock e s') m q') q'
             \<and> createdAt (objs (update e s') q') = createdAt (objs s' q')"
    proof
      assume x: "\<not> expired e s' q'"
      have "objs (update e s') q' = objs (driftDisc (frameClock e s') m q') q'"
        using f(1) y [OF x] by simp
      moreover have "createdAt (objs (update e s') q') = createdAt (objs s' q')"
        using f(4) x by simp
      ultimately show "objs (update e s') q' = objs (driftDisc (frameClock e s') m q') q'
             \<and> createdAt (objs (update e s') q') = createdAt (objs s' q')"
        by (rule conjI)
    qed
    show ?thesis
      unfolding q'_def [symmetric] m_def [symmetric]
      by (intro conjI c0 f(1) f(2) f(3) c5 c6)
  qed
  show ?thesis
    using call upd frame by blast
qed

lemma pickPosition_empty:
  "discs s = [] \<Longrightarrow>
   pickPosition e s n a =
     (minX + mathRandom e n * (maxX - minX), minY + mathRandom e (n + 1) * (maxY - minY), n + 2)"
  by (subst pickPosition.simps) (simp add: Let_def)

lemma first_disc:
  "discs (createDisc env0 (newGame env0)) = [0]"
  "createdAt (objs (createDisc env0 (newGame env0)) 0) = 1700000000000"
  "points (objs (createDisc env0 (newGame env0)) 0) = 100"
  "color (objs (createDisc env0 (newGame env0)) 0) = Some 62975"
  "position (objs (createDisc env0 (newGame env0)) 0) = (- 2.4, - 1)"
  "dateCalls (createDisc env0 (newGame env0)) = 1"
  "nextRef (createDisc env0 (newGame env0)) = 1"
proof -
  have d: "discs (newGame env0) = []"
    by (simp add: newGame_def)
  show "discs (createDisc env0 (newGame env0)) = [0]"
    "createdAt (objs (createDisc env0 (newGame env0)) 0) = 1700000000000"
    "points (objs (createDisc env0 (newGame env0)) 0) = 100"
    "color (objs (createDisc env0 (newGame env0)) 0) = Some 62975"
    "position (objs (createDisc env0 (newGame env0)) 0) = (- 2.4, - 1)"
    "dateCalls (createDisc env0 (newGame env0)) = 1"
    "nextRef (createDisc env0 (newGame env0)) = 1"
    by (simp_all add: createDisc_def Let_def pickPosition_empty [OF d])
      (simp_all add: newGame_def env0_def colors_def minX_def maxX_def minY_def maxY_def)
qed


lemma dateNow_env1:
  "dateNow env1 (Suc 0) = 1700000000016" "dateNow env1 2 = 1700000000032"
  "dateNow env1 5 = 1700000009080" "dateNow env1 7 = 1700000009112"
  by (simp_all add: env1_def)

lemma dateNow_env0:
  "dateNow env0 (Suc 0) = 1700000000016" "dateNow env0 2 = 1700000000032"
  "dateNow env0 5 = 1700000000080"
  by (simp_all add: env0_def)

lemma started_env1:
  "expired env1 (run env1 (newGame env1) [Start]) (Suc 0)"
  "relocatedBefore env1 (run env1 (newGame env1) [Start]) (Suc 0) = 1"
  by (simp_all add: expired_def [abs_def] relocatedBefore_def frameClock_def started_registry
      dateNow_env1 lifeTime_def)

lemma started_env0:
  "\<not> expired env0 (run env0 (newGame env0) [Start]) (Suc 0)"
  by (simp add: expired_def frameClock_def started_registry dateNow_env0 lifeTime_def)

text \<open>
  One call on the first disc of a game, nine seconds after its creation, and two frames
  after \<open>start\<close>: with the late clock the second disc is expired (its age is 9048 ms),
  the frame leaves the array as it is and gives the disc the third reading after the
  five of the start, and its points stay; with the steady clock the disc is 48 ms old
  and keeps its creation time.
\<close>

theorem relocation_in_place_witness:
  "lifeTime < 1700000009000 - createdAt (objs (createDisc env0 (newGame env0)) 0)
   \<and> discs (updateDisc env0 1700000009000 (createDisc env0 (newGame env0)) 0) = [0]
   \<and> createdAt (objs (updateDisc env0 1700000009000 (createDisc env0 (newGame env0)) 0) 0)
       = 1700000000016
   \<and> points (objs (updateDisc env0 1700000009000 (createDisc env0 (newGame env0)) 0) 0) = 100
   \<and> color (objs (updateDisc env0 1700000009000 (createDisc env0 (newGame env0)) 0) 0)
       = Some 62975
   \<and> discs (run env1 (newGame env1) [Start]) = [0, Suc 0, 2, 3]
   \<and> createdAt (objs (run env1 (newGame env1) [Start]) (Suc 0)) = 1700000000032
   \<and> frameClock env1 (run env1 (newGame env1) [Start]) = 1700000009080
   \<and> expired env1 (run env1 (newGame env1) [Start]) (Suc 0)
   \<and> discs (update env1 (run env1 (newGame env1) [Start])) = [0, Suc 0, 2, 3]
   \<and> createdAt (objs (update env1 (run env1 (newGame env1) [Start])) (Suc 0)) = 1700000009112
   \<and> points (objs (update env1 (run env1 (newGame env1) [Start])) (Suc 0)) = 100
   \<and> \<not> expired env0 (run env0 (newGame env0) [Start]) (Suc 0)
   \<and> createdAt (objs (update env0 (run env0 (newGame env0) [Start])) (Suc 0)) = 1700000000032"
proof -
  have old: "lifeTime < 1700000009000 - createdAt (objs (createDisc env0 (newGame env0)) 0)"
    by (simp add: first_disc lifeTime_def)
  let ?s = "createDisc env0 (newGame env0)"
  let ?u = "updateDisc env0 1700000009000 ?s 0"
  let ?a = "run env1 (newGame env1) [Start]"
  let ?b = "run env0 (newGame env0) [Start]"
  have mem: "Suc 0 \<in> set (discs ?a)" "Suc 0 < length (discs ?a)" "discs ?a ! Suc 0 = Suc 0"
    "Suc 0 < length (discs ?b)" "discs ?b ! Suc 0 = Suc 0"
    by (simp_all add: started_registry)
  note inst = relocation_in_place [of 1700000009000 ?s 0 env0 0 ?b "[Start]" 0 0]
  note inst1 = relocation_in_place [of 0 "newGame env1" 0 env1 0 ?a "[Start]" "Suc 0" "Suc 0"]
  note inst0 = relocation_in_place [of 0 "newGame env0" 0 env0 0 ?b "[Start]" "Suc 0" "Suc 0"]
  from inst old have "createdAt (objs ?u 0) = dateNow env0 (dateCalls ?s)"
    by blast
  moreover from inst have "discs ?u = discs ?s" "points (objs ?u 0) = points (objs ?s 0)"
    "color (objs ?u 0) = color (objs ?s 0)"
    by blast+
  ultimately have a: "discs ?u = [0]" "createdAt (objs ?u 0) = 1700000000016"
    "points (objs ?u 0) = 100" "color (objs ?u 0) = Some 62975"
    by (simp_all add: first_disc) (simp add: env0_def)
  from inst1 mem(1) have "points (objs (update env1 ?a) (Suc 0)) = points (objs ?a (Suc 0))"
    and "\<exists>new. discs (update env1 ?a) = discs ?a @ new"
    by blast+
  then have b: "points (objs (update env1 ?a) (Suc 0)) = 100"
    "discs (update env1 ?a) = [0, Suc 0, 2, 3]"
    using update_discs(1) [of env1 ?a]
    by (simp_all add: started_registry) (auto simp: maxCount_def)
  from inst1 mem(2) started_env1(1)
  have "createdAt (objs (update env1 ?a) (discs ?a ! Suc 0))
          = dateNow env1 (dateCalls ?a + 1 + relocatedBefore env1 ?a (Suc 0))"
    unfolding mem(3) by blast
  then have c: "createdAt (objs (update env1 ?a) (Suc 0)) = 1700000009112"
    by (simp add: mem(3) started_env1(2) started_registry dateNow_env1)
  from inst0 mem(4) started_env0
  have "createdAt (objs (update env0 ?b) (discs ?b ! Suc 0))
          = createdAt (objs ?b (discs ?b ! Suc 0))"
    unfolding mem(5) by blast
  then have d: "createdAt (objs (update env0 ?b) (Suc 0)) = 1700000000032"
    by (simp add: mem(5) started_registry dateNow_env0)
  have e: "discs ?a = [0, Suc 0, 2, 3]" "createdAt (objs ?a (Suc 0)) = 1700000000032"
    "frameClock env1 ?a = 1700000009080"
    by (simp_all add: started_registry frameClock_def dateNow_env1)
  show ?thesis
    by (intro conjI old a b c d e started_env1(1) started_env0)
qed

subsection \<open>Magnetic acquisition\<close>






lemma js_lt_range_PInf: "js_lt a magnet_range \<Longrightarrow> js_lt a PInf"
  by (cases a) (simp_all add: magnet_range_def)








lemma magneticAim_lock:
  "lockedTarget (magneticAim e s) = (if state_isGunPose s then candidate e s else None)"
  "wasLocked (magneticAim e s) = (candidate e s \<noteq> None \<and> state_isGunPose s)"
  "audio (magneticAim e s) =
     audio s @ (if candidate e s \<noteq> None \<and> state_isGunPose s \<and> \<not> wasLocked s
                then [PlayLock] else [])"
  by (auto simp: magneticAim_def candidate_def Let_def split: prod.splits)



lemma sqrt_less_num: "0 < c \<Longrightarrow> (sqrt v < c) = (v < c * c)"
proof -
  assume c: "0 < c"
  then have "sqrt (c * c) = c"
    by simp
  then have "(sqrt v < c) = (sqrt v < sqrt (c * c))"
    by simp
  also have "\<dots> = (v < c * c)"
    by (rule real_sqrt_less_iff)
  finally show ?thesis .
qed

lemma isPositionOccupied_iff:
  "0 < m \<Longrightarrow>
   isPositionOccupied os ds x y m \<longleftrightarrow>
     (\<exists>d\<in>set ds. (fst (position (os d)) - x) * (fst (position (os d)) - x)
                   + (snd (position (os d)) - y) * (snd (position (os d)) - y) < m * m)"
  by (induction ds) (simp_all add: Let_def sqrt_less_num)

lemma js_lt_sqrt_range: "js_lt (js_sqrt (Fin v)) magnet_range \<longleftrightarrow> 0 \<le> v \<and> v < 14400"
  by (auto simp: magnet_range_def sqrt_less_num)

lemma worldToScreen_env0:
  "worldToScreen env0 p = (Fin (400 + 80 * fst p), Fin (300 - 80 * snd p))"
  by (simp add: env0_def)

lemma pickPosition_free:
  "\<not> isPositionOccupied (objs s) (discs s)
       (minX + mathRandom e n * (maxX - minX)) (minY + mathRandom e (n + 1) * (maxY - minY)) 1.5
   \<Longrightarrow> pickPosition e s n a =
     (minX + mathRandom e n * (maxX - minX), minY + mathRandom e (n + 1) * (maxY - minY), n + 2)"
  by (subst pickPosition.simps) (simp add: Let_def)

lemma createDisc_free:
  assumes "randomCalls s = n" and "mathRandom e (n + 1) = rx" and "mathRandom e (n + 2) = ry"
    and "\<not> isPositionOccupied (objs s) (discs s)
           (minX + rx * (maxX - minX)) (minY + ry * (maxY - minY)) 1.5"
  shows "position (objs (createDisc e s) (nextRef s))
           = (minX + rx * (maxX - minX), minY + ry * (maxY - minY))"
    and "randomCalls (createDisc e s) = n + 8"
proof -
  have "pickPosition e s (n + 1) 0 =
      (minX + rx * (maxX - minX), minY + ry * (maxY - minY), n + 3)"
    using pickPosition_free [of s e "n + 1" 0] assms by (simp add: add.commute)
  then show "position (objs (createDisc e s) (nextRef s))
           = (minX + rx * (maxX - minX), minY + ry * (maxY - minY))"
    and "randomCalls (createDisc e s) = n + 8"
    using assms(1) by (simp_all add: createDisc_def Let_def)
qed

text \<open>The game in the sample environment right after \<open>start\<close>.\<close>

lemma started:
  "discs (run env0 (newGame env0) [Start]) = [0, Suc 0, 2, 3]"
  "position (objs (run env0 (newGame env0) [Start]) 0) = (- 2.4, - 1)"
  "position (objs (run env0 (newGame env0) [Start]) (Suc 0)) = (- 4, - 2)"
  "position (objs (run env0 (newGame env0) [Start]) 2) = (2.4, 2)"
  "position (objs (run env0 (newGame env0) [Start]) 3) = (0.8, 1)"
  "targetX (run env0 (newGame env0) [Start]) = Fin 400"
  "targetY (run env0 (newGame env0) [Start]) = Fin 300"
  "\<not> state_isGunPose (run env0 (newGame env0) [Start])"
  "\<not> wasLocked (run env0 (newGame env0) [Start])"
  "audio (run env0 (newGame env0) [Start]) = []"
  "running (run env0 (newGame env0) [Start])"
  "wasThumbUp (run env0 (newGame env0) [Start])"
  "\<not> isShooting (run env0 (newGame env0) [Start])"
proof -
  define s00 where "s00 = (newGame env0)\<lparr>running := True,
      timers := timers (newGame env0) @ map InitialSpawn [0..<maxCount]\<rparr>"
  define s1 where "s1 = magneticAim env0 s00"
  define t0 where "t0 = s1\<lparr>dateCalls := dateCalls s1 + 1\<rparr>"
  define t1 where "t1 = createDisc env0 t0"
  define t2 where "t2 = createDisc env0 t1"
  define t3 where "t3 = createDisc env0 t2"
  define t4 where "t4 = createDisc env0 t3"
  have run: "run env0 (newGame env0) [Start] = update env0 s00"
    by (simp add: run_def start_def gameLoop_def Let_def s00_def)
  have d00: "discs s00 = []" "nextRef s00 = 0" "randomCalls s00 = 0"
    by (simp_all add: s00_def newGame_def)
  have "registry s1 = registry s00"
    by (simp add: s1_def)
  with d00 have r0: "discs t0 = []" "nextRef t0 = 0" "randomCalls t0 = 0"
    by (simp_all add: t0_def registry_def)
  have upd: "update env0 s00 = topUp env0 t0"
    using d00 \<open>registry s1 = registry s00\<close>
    by (simp add: update_def Let_def s1_def [symmetric] t0_def registry_def)
  have rnd: "mathRandom env0 n = real ((n + 1) mod 10) / 10" for n
    by (simp add: env0_def)
  have box: "minX = - 4" "maxX = 4" "minY = - 2.5" "maxY = 2.5"
    by (simp_all add: minX_def maxX_def minY_def maxY_def)
  have p1: "position (objs t1 0) = (- 2.4, - 1)" and c1: "randomCalls t1 = 8"
    using createDisc_free [of t0 0 env0 "0.2" "0.3"] r0
    by (simp_all add: t1_def rnd box)
  have r1: "discs t1 = [0]" "nextRef t1 = 1"
    by (simp_all add: t1_def discs_createDisc createDisc_keeps r0)
  have free2: "\<not> isPositionOccupied (objs t1) (discs t1) (- 4) (- 2) 1.5"
    by (subst isPositionOccupied_iff) (simp_all add: r1 p1)
  have p2: "position (objs t2 (Suc 0)) = (- 4, - 2)" and c2: "randomCalls t2 = 16"
    using createDisc_free [of t1 8 env0 0 "0.1"] r1 c1 free2
    by (simp_all add: t2_def rnd box)
  have r2: "discs t2 = [0, Suc 0]" "nextRef t2 = 2" "position (objs t2 0) = (- 2.4, - 1)"
    by (simp_all add: t2_def discs_createDisc createDisc_keeps r1 p1)
  have free3: "\<not> isPositionOccupied (objs t2) (discs t2) 2.4 2 1.5"
    by (subst isPositionOccupied_iff) (simp_all add: r2 p2)
  have p3: "position (objs t3 2) = (2.4, 2)" and c3: "randomCalls t3 = 24"
    using createDisc_free [of t2 16 env0 "0.8" "0.9"] r2 c2 free3
    by (simp_all add: t3_def rnd box)
  have r3: "discs t3 = [0, Suc 0, 2]" "nextRef t3 = 3" "position (objs t3 0) = (- 2.4, - 1)"
    "position (objs t3 (Suc 0)) = (- 4, - 2)"
    by (simp_all add: t3_def discs_createDisc createDisc_keeps r2 p2)
  have free4: "\<not> isPositionOccupied (objs t3) (discs t3) 0.8 1 1.5"
    by (subst isPositionOccupied_iff) (simp_all add: r3 p3)
  have p4: "position (objs t4 3) = (0.8, 1)"
    using createDisc_free [of t3 24 env0 "0.6" "0.7"] r3 c3 free4
    by (simp_all add: t4_def rnd box)
  have r4: "discs t4 = [0, Suc 0, 2, 3]" "position (objs t4 0) = (- 2.4, - 1)"
    "position (objs t4 (Suc 0)) = (- 4, - 2)" "position (objs t4 2) = (2.4, 2)"
    by (simp_all add: t4_def discs_createDisc createDisc_keeps r3 p3)
  have "topUp env0 t0 = topUp env0 t1"
    by (subst topUp.simps) (simp add: r0 maxCount_def t1_def)
  also have "\<dots> = topUp env0 t2"
    by (subst topUp.simps) (simp add: r1 maxCount_def t2_def)
  also have "\<dots> = topUp env0 t3"
    by (subst topUp.simps) (simp add: r2 maxCount_def t3_def)
  also have "\<dots> = topUp env0 t4"
    by (subst topUp.simps) (simp add: r3 maxCount_def t4_def)
  also have "\<dots> = t4"
    by (subst topUp.simps) (simp add: r4 maxCount_def)
  finally have top: "run env0 (newGame env0) [Start] = t4"
    by (simp add: run upd)
  show "discs (run env0 (newGame env0) [Start]) = [0, Suc 0, 2, 3]"
    "position (objs (run env0 (newGame env0) [Start]) 0) = (- 2.4, - 1)"
    "position (objs (run env0 (newGame env0) [Start]) (Suc 0)) = (- 4, - 2)"
    "position (objs (run env0 (newGame env0) [Start]) 2) = (2.4, 2)"
    "position (objs (run env0 (newGame env0) [Start]) 3) = (0.8, 1)"
    by (simp_all add: top r4 p4)
  have cnt: "counters (run env0 (newGame env0) [Start]) = counters s00"
    by (simp add: run)
  show "targetX (run env0 (newGame env0) [Start]) = Fin 400"
    "targetY (run env0 (newGame env0) [Start]) = Fin 300"
    "\<not> state_isGunPose (run env0 (newGame env0) [Start])"
    "running (run env0 (newGame env0) [Start])"
    "wasThumbUp (run env0 (newGame env0) [Start])"
    "\<not> isShooting (run env0 (newGame env0) [Start])"
    by (simp_all add: countersD [OF cnt]) (simp_all add: s00_def newGame_def env0_def)
  have "candidate env0 s00 = None"
    by (simp add: candidate_def d00)
  then show "\<not> wasLocked (run env0 (newGame env0) [Start])"
    "audio (run env0 (newGame env0) [Start]) = []"
    using lockState_update [of env0 s00]
    by (simp_all add: run lockState_def magneticAim_lock) (simp add: s00_def newGame_def)
qed

lemma started_dists:
  "\<not> js_lt (screenDist env0 (run env0 (newGame env0) [Start]) 0) magnet_range"
  "\<not> js_lt (screenDist env0 (run env0 (newGame env0) [Start]) (Suc 0)) magnet_range"
  "\<not> js_lt (screenDist env0 (run env0 (newGame env0) [Start]) 2) magnet_range"
  "js_lt (screenDist env0 (run env0 (newGame env0) [Start]) 3) magnet_range"
  by (simp_all add: screenDist_def Let_def started worldToScreen_env0 js_sub_def
      js_lt_sqrt_range del: js_sqrt.simps)

lemma started_candidate: "candidate env0 (run env0 (newGame env0) [Start]) = Some 3"
  using js_lt_range_PInf [OF started_dists(4)]
  by (simp add: candidate_def started(1) Let_def started_dists)

lemma raised_update:
  "isGunPose g \<Longrightarrow> isThumbUp g \<Longrightarrow>
   updateGesture e s g =
     s\<lparr> state_isGunPose := True,
        targetX := js_mul (fst (fingerTip g)) (innerWidth e),
        targetY := js_mul (snd (fingerTip g)) (innerHeight e),
        wasThumbUp := True \<rparr>"
  by (simp add: updateGesture_def Let_def)







subsection \<open>Lock notification\<close>

lemma lockCalls_fired: "lockCalls (fired e s) = lockCalls s"
  by (simp add: lockCalls_def fired_def Let_def hitTarget_def miss_def removeDisc_def
      split: option.splits)

lemma audio_updateAccuracy: "audio (updateAccuracy s) = audio s"
  by (simp add: updateAccuracy_def)

lemma lockCalls_shoot: "lockCalls (shoot e s) = lockCalls s"
  using lockCalls_fired [of e s]
  by (simp add: shoot_fired lockCalls_def audio_updateAccuracy)

lemma lockCalls_fields:
  "lockCalls (s\<lparr>state_isGunPose := a\<rparr>) = lockCalls s"
  "lockCalls (s\<lparr>wasThumbUp := b\<rparr>) = lockCalls s"
  "lockCalls (s\<lparr>targetX := x\<rparr>) = lockCalls s"
  "lockCalls (s\<lparr>targetY := y\<rparr>) = lockCalls s"
  "lockCalls (s\<lparr>isShooting := c\<rparr>) = lockCalls s"
  "lockCalls (s\<lparr>running := d\<rparr>) = lockCalls s"
  "lockCalls (s\<lparr>timers := ts\<rparr>) = lockCalls s"
  by (simp_all add: lockCalls_def)

lemma lockCalls_lockState: "lockState s' = lockState s \<Longrightarrow> lockCalls s' = lockCalls s"
  by (simp add: lockCalls_def lockState_def)

lemma wasLocked_lockState: "lockState s' = lockState s \<Longrightarrow> wasLocked s' = wasLocked s"
  by (simp add: lockState_def)

lemma between_frames_step:
  assumes "ev \<noteq> Start" and "ev \<noteq> Frame" and "ev \<noteq> Resume"
  shows "wasLocked (step e s ev) = wasLocked s \<and> lockCalls (step e s ev) = lockCalls s"
proof (cases ev)
  case (GestureUpdate g)
  then show ?thesis
    by (simp add: updateGesture_def Let_def shoot_counts lockCalls_fields lockCalls_shoot)
next
  case (TimerFires k)
  then show ?thesis
    by (simp add: fireTimer_def runTimer_def lockCalls_fields
        lockCalls_lockState [OF lockState_createDisc] wasLocked_lockState [OF lockState_createDisc]
        split: timer.splits)
next
  case KeySpace
  then show ?thesis
    by (simp add: shoot_counts lockCalls_shoot)
qed (use assms in \<open>simp_all add: onGestureLost_def pause_def lockCalls_fields\<close>)

lemma between_frames_run:
  "\<forall>ev\<in>set evs. ev \<noteq> Start \<and> ev \<noteq> Frame \<and> ev \<noteq> Resume \<Longrightarrow>
   wasLocked (run e s evs) = wasLocked s \<and> lockCalls (run e s evs) = lockCalls s"
  unfolding run_def
  by (induction evs arbitrary: s) (simp_all add: between_frames_step)

lemma update_lock:
  "audio (update e s) =
     audio s @ (if candidate e s \<noteq> None \<and> state_isGunPose s \<and> \<not> wasLocked s
                then [PlayLock] else [])"
  "wasLocked (update e s) = (candidate e s \<noteq> None \<and> state_isGunPose s)"
  using lockState_update [of e s] by (simp_all add: lockState_def magneticAim_lock)

text \<open>
  Claim C8, as the code has it. A frame is locked when a disc is within the capture radius
  and the gun pose is active. A frame sends the lock notification exactly when it is
  locked and \<open>wasLocked\<close> is false, and then sends it once; it leaves \<open>wasLocked\<close>
  saying whether it was locked, and nothing that happens between two frames changes
  \<open>wasLocked\<close> or sends the notification. So the notification is sent once per
  transition from a frame that is not locked to a frame that is, and never again while the
  lock lasts.
\<close>

theorem lock_notification:
  "audio (update e s) =
     audio s @ (if candidate e s \<noteq> None \<and> state_isGunPose s \<and> \<not> wasLocked s
                then [PlayLock] else [])
   \<and> wasLocked (update e s) = (candidate e s \<noteq> None \<and> state_isGunPose s)
   \<and> lockCalls (update e s) =
       lockCalls s + (if candidate e s \<noteq> None \<and> state_isGunPose s \<and> \<not> wasLocked s then 1 else 0)
   \<and> (wasLocked s \<longrightarrow> audio (update e s) = audio s)
   \<and> step e s Frame = (if running s then update e s else s)
   \<and> ((\<forall>ev\<in>set evs. ev \<noteq> Start \<and> ev \<noteq> Frame \<and> ev \<noteq> Resume) \<longrightarrow>
        wasLocked (run e s evs) = wasLocked s \<and> lockCalls (run e s evs) = lockCalls s)"
  using between_frames_run [of evs e s]
  by (simp add: update_lock lockCalls_def gameLoop_def)

lemma raised_centre:
  "run env0 (newGame env0) [Start, GestureUpdate thumbRaised] =
     (run env0 (newGame env0) [Start])
       \<lparr> state_isGunPose := True, targetX := Fin 400, targetY := Fin 300, wasThumbUp := True \<rparr>"
proof -
  have "run env0 (newGame env0) [Start, GestureUpdate thumbRaised] =
      updateGesture env0 (run env0 (newGame env0) [Start]) thumbRaised"
    by (simp add: run_def)
  also have "\<dots> = (run env0 (newGame env0) [Start])
       \<lparr> state_isGunPose := True,
         targetX := js_mul (fst (fingerTip thumbRaised)) (innerWidth env0),
         targetY := js_mul (snd (fingerTip thumbRaised)) (innerHeight env0),
         wasThumbUp := True \<rparr>"
    by (rule raised_update) (simp_all add: thumbRaised_def)
  also have "js_mul (fst (fingerTip thumbRaised)) (innerWidth env0) = Fin 400"
    by (simp add: thumbRaised_def env0_def)
  also have "js_mul (snd (fingerTip thumbRaised)) (innerHeight env0) = Fin 300"
    by (simp add: thumbRaised_def env0_def)
  finally show ?thesis .
qed

lemma findNearest_cong:
  "objs s' = objs s \<Longrightarrow> targetX s' = targetX s \<Longrightarrow> targetY s' = targetY s \<Longrightarrow>
   findNearest e s' ds acc = findNearest e s ds acc"
  by (induction ds arbitrary: acc) (auto simp: screenDist_def Let_def)

lemma raised_centre_candidate:
  "candidate env0 (run env0 (newGame env0) [Start, GestureUpdate thumbRaised]) = Some 3"
proof -
  let ?s = "run env0 (newGame env0) [Start]"
  let ?g = "run env0 (newGame env0) [Start, GestureUpdate thumbRaised]"
  have same: "objs ?g = objs ?s" "targetX ?g = targetX ?s" "targetY ?g = targetY ?s"
    "discs ?g = discs ?s"
    by (simp_all add: raised_centre started)
  have "findNearest env0 ?g (discs ?s) (PInf, None) = findNearest env0 ?s (discs ?s) (PInf, None)"
    using same(1-3) by (rule findNearest_cong)
  then have "candidate env0 ?g = candidate env0 ?s"
    by (simp only: candidate_def same(4))
  then show ?thesis
    by (simp only: started_candidate)
qed

theorem lock_notification_witness:
  "audio (run env0 (newGame env0) [Start, GestureUpdate thumbRaised]) = []
   \<and> audio (run env0 (newGame env0) [Start, GestureUpdate thumbRaised, Frame]) = [PlayLock]
   \<and> wasLocked (run env0 (newGame env0) [Start, GestureUpdate thumbRaised, Frame])
   \<and> lockCalls (run env0 (newGame env0) [Start, GestureUpdate thumbRaised, Frame, GestureLost]) = 1"
proof -
  let ?g = "run env0 (newGame env0) [Start, GestureUpdate thumbRaised]"
  have g: "audio ?g = []" "\<not> wasLocked ?g" "state_isGunPose ?g" "running ?g"
    by (simp_all add: raised_centre started)
  have f: "run env0 (newGame env0) [Start, GestureUpdate thumbRaised, Frame] = update env0 ?g"
    using g(4) by (simp add: run_def gameLoop_def)
  from lock_notification [of env0 ?g "[GestureLost]"] g raised_centre_candidate
  have a: "audio (update env0 ?g) = [PlayLock]" "wasLocked (update env0 ?g)"
    by simp_all
  from lock_notification [of env0 "update env0 ?g" "[GestureLost]"]
  have "lockCalls (run env0 (update env0 ?g) [GestureLost]) = lockCalls (update env0 ?g)"
    by simp
  then have "lockCalls (run env0 (newGame env0) [Start, GestureUpdate thumbRaised, Frame, GestureLost]) = 1"
    using a f by (simp add: run_def lockCalls_def)
  with g a f show ?thesis
    by simp
qed

text \<open>
  The frame run by \<open>start\<close> has no disc at all; at the next frame disc 3 is within the
  radius of the aim target, but no gun pose is shown: the candidate has entered the radius
  and no notification is sent.
\<close>

theorem lock_notification_counterexample:
  "discs (newGame env0) = []
   \<and> candidate env0 (newGame env0) = None
   \<and> run env0 (newGame env0) [Start] =
       update env0 ((newGame env0)\<lparr>running := True, timers := map InitialSpawn [0..<maxCount]\<rparr>)
   \<and> candidate env0 (run env0 (newGame env0) [Start]) = Some 3
   \<and> js_lt (screenDist env0 (run env0 (newGame env0) [Start]) 3) magnet_range
   \<and> \<not> state_isGunPose (run env0 (newGame env0) [Start])
   \<and> audio (run env0 (newGame env0) [Start, Frame]) = []"
proof -
  let ?s = "run env0 (newGame env0) [Start]"
  have "run env0 (newGame env0) [Start, Frame] = update env0 ?s"
    using started(11) by (simp add: run_def gameLoop_def)
  then have "audio (run env0 (newGame env0) [Start, Frame]) = []"
    by (simp add: update_lock started)
  moreover have "discs (newGame env0) = []" "candidate env0 (newGame env0) = None"
    by (simp_all add: candidate_def newGame_def)
  moreover have "run env0 (newGame env0) [Start] =
       update env0 ((newGame env0)\<lparr>running := True, timers := map InitialSpawn [0..<maxCount]\<rparr>)"
    by (simp add: run_def start_def gameLoop_def Let_def newGame_def)
  ultimately show ?thesis
    using started_candidate started_dists(4) started(8) by simp
qed

end
